theory Spec2Isabelle
  imports Complex_Main "HOL-Library.Word"
begin

section \<open>Python values, objects and the call bridge\<close>

text \<open>
  The two source files are \<^verbatim>\<open>python/sparknlp/ocr.py\<close> (the OCR proxy and the
  coordinate object) and \<^verbatim>\<open>python/tensorflow/spellchecker/run.py\<close> (the
  spell-checker script).

  Python objects live in a heap: an object has a class and an attribute dictionary, and
  a value of object type is a reference into the heap. The heap is a list, an address is
  an index, allocation appends. Values that the proxy only passes along are kept as they
  are: a float is its 64-bit pattern, a py4j handle is a number.
\<close>

type_synonym addr = nat
type_synonym jref = nat

datatype pyclass = PyClass string "pyclass list"
  \<comment> \<open>a class: its name and its direct base classes\<close>

datatype pyval =
    PNone
  | PBool bool
  | PInt int
  | PFloat "64 word"
  | PStr string
  | PList "pyval list"
  | JavaObject jref
  | PRef addr
  | DataFrame pyval pyval
  \<comment> \<open>\<open>JavaObject\<close>: a py4j handle of a JVM-side instance; \<open>PRef\<close>: a reference to a heap
      object; \<open>DataFrame jdf sql_ctx\<close>: an instance of the external class
      \<open>pyspark.sql.DataFrame\<close>, built from its two constructor arguments\<close>

datatype jfault = JFault string
  \<comment> \<open>what the bridge raises when the remote side fails\<close>

datatype pyerror =
    PyException string
  | AttributeError string
  | TypeError string
  | Py4JJavaError jfault
  \<comment> \<open>\<open>PyException msg\<close> is \<^verbatim>\<open>raise Exception(msg)\<close>; \<open>Py4JJavaError\<close> is a remote fault
      coming through the bridge unchanged\<close>

record pyobj =
  obj_class :: pyclass
  obj_dict :: "string \<rightharpoonup> pyval"

datatype rcall =
    New string "pyval list"
  | Invoke jref string "pyval list"
  \<comment> \<open>a call over the bridge: the constructor of a JVM class, or a method of a remote
      instance, each with its positional arguments\<close>

type_synonym jvm = "rcall list \<Rightarrow> rcall \<Rightarrow> jfault + pyval"
  \<comment> \<open>the remote side: what it answers to a call, given the calls made before\<close>

record world =
  heap :: "pyobj list"
  trace :: "rcall list"
  \<comment> \<open>\<open>trace\<close>: the remote calls made so far, oldest first\<close>

type_synonym 'a py = "world \<Rightarrow> (pyerror + 'a) \<times> world"

definition SparkSession :: pyclass where
  "SparkSession = PyClass ''SparkSession'' []"

definition object_class :: pyclass where
  "object_class = PyClass ''object'' []"

fun issubclass :: "pyclass \<Rightarrow> pyclass \<Rightarrow> bool" where
  "issubclass (PyClass n bs) d = (PyClass n bs = d \<or> (\<exists>b \<in> set bs. issubclass b d))"

definition lookup :: "world \<Rightarrow> addr \<Rightarrow> pyobj option" where
  "lookup s a = (if a < length (heap s) then Some (heap s ! a) else None)"

text \<open>
  \<^verbatim>\<open>type(v)\<close>. A reference never dangles in Python; the model gives a reference outside
  the heap the class \<open>object\<close> and no attribute.
\<close>

fun type_of :: "world \<Rightarrow> pyval \<Rightarrow> pyclass" where
  "type_of s PNone = PyClass ''NoneType'' []"
| "type_of s (PBool b) = PyClass ''bool'' [PyClass ''int'' []]"
| "type_of s (PInt n) = PyClass ''int'' []"
| "type_of s (PFloat f) = PyClass ''float'' []"
| "type_of s (PStr str) = PyClass ''str'' []"
| "type_of s (PList vs) = PyClass ''list'' []"
| "type_of s (JavaObject j) = PyClass ''JavaObject'' []"
| "type_of s (PRef a) = (case lookup s a of Some ob \<Rightarrow> obj_class ob | None \<Rightarrow> object_class)"
| "type_of s (DataFrame jdf ctx) = PyClass ''DataFrame'' []"

definition isinstance :: "world \<Rightarrow> pyval \<Rightarrow> pyclass \<Rightarrow> bool" where
  "isinstance s v c = issubclass (type_of s v) c"

text \<open>
  \<^verbatim>\<open>v.name\<close> for the attribute names the program reads (\<^verbatim>\<open>_java_obj\<close>, \<^verbatim>\<open>java_obj\<close>,
  \<^verbatim>\<open>_jsparkSession\<close> and the six fields of a coordinate): only a heap object has them.
\<close>

definition getattr :: "world \<Rightarrow> pyval \<Rightarrow> string \<Rightarrow> pyerror + pyval" where
  "getattr s v name =
     (case v of
        PRef a \<Rightarrow>
          (case lookup s a of
             Some ob \<Rightarrow> (case obj_dict ob name of Some x \<Rightarrow> Inr x | None \<Rightarrow> Inl (AttributeError name))
           | None \<Rightarrow> Inl (AttributeError name))
      | _ \<Rightarrow> Inl (AttributeError name))"

definition setattr :: "addr \<Rightarrow> string \<Rightarrow> pyval \<Rightarrow> world \<Rightarrow> world" where
  "setattr a name v s =
     (if a < length (heap s)
      then s\<lparr>heap := (heap s)[a := (heap s ! a)\<lparr>obj_dict := (obj_dict (heap s ! a))(name \<mapsto> v)\<rparr>]\<rparr>
      else s)"

definition alloc :: "pyclass \<Rightarrow> world \<Rightarrow> addr \<times> world" where
  "alloc c s = (length (heap s), s\<lparr>heap := heap s @ [\<lparr>obj_class = c, obj_dict = Map.empty\<rparr>]\<rparr>)"

text \<open>
  A call over the bridge: it is recorded in the trace, and the remote side's answer is
  the call's value, or its fault is raised as it comes.
\<close>

definition remote_call :: "jvm \<Rightarrow> rcall \<Rightarrow> pyval py" where
  "remote_call J c s =
     ((case J (trace s) c of Inl f \<Rightarrow> Inl (Py4JJavaError f) | Inr v \<Rightarrow> Inr v),
      s\<lparr>trace := trace s @ [c]\<rparr>)"

text \<open>
  \<^verbatim>\<open>target.name(*args)\<close> where \<open>target\<close> is expected to be a py4j handle: any other
  value has no remote method.
\<close>

definition call_member :: "jvm \<Rightarrow> pyval \<Rightarrow> string \<Rightarrow> pyval list \<Rightarrow> pyval py" where
  "call_member J target name args s =
     (case target of
        JavaObject j \<Rightarrow> remote_call J (Invoke j name args) s
      | _ \<Rightarrow> (Inl (AttributeError name), s))"

section \<open>The OCR proxy\<close>

subsection \<open>createDataset\<close>

text \<open>
  \<^verbatim>\<open>
  def createDataset(self, spark, input_path):
      if type(spark) != SparkSession:
          raise Exception("spark must be SparkSession")
      return DataFrame(self._java_obj.createDataset(spark._jsparkSession, input_path), spark)
  \<close>
  Python evaluates \<^verbatim>\<open>self._java_obj\<close>, then its member, then the arguments, then calls.
\<close>

definition createDataset :: "jvm \<Rightarrow> pyval \<Rightarrow> pyval \<Rightarrow> pyval \<Rightarrow> pyval py" where
  "createDataset J self spark input_path s =
     (if type_of s spark \<noteq> SparkSession
      then (Inl (PyException ''spark must be SparkSession''), s)
      else (case getattr s self ''_java_obj'' of
              Inl e \<Rightarrow> (Inl e, s)
            | Inr target \<Rightarrow>
                (case target of
                   JavaObject j \<Rightarrow>
                     (case getattr s spark ''_jsparkSession'' of
                        Inl e \<Rightarrow> (Inl e, s)
                      | Inr js \<Rightarrow>
                          (case remote_call J (Invoke j ''createDataset'' [js, input_path]) s of
                             (Inl e, s') \<Rightarrow> (Inl e, s')
                           | (Inr jdf, s') \<Rightarrow> (Inr (DataFrame jdf spark), s')))
                 | _ \<Rightarrow> (Inl (AttributeError ''createDataset''), s))))"

subsection \<open>The pass-through methods\<close>

text \<open>
  Every other method but \<^verbatim>\<open>drawRectangle\<close> has the shape
  \<^verbatim>\<open>return self._java_obj.name(args)\<close> with its own parameters as \<open>args\<close>:
  \<open>java_obj_call\<close> is that expression.
\<close>

definition java_obj_call :: "jvm \<Rightarrow> pyval \<Rightarrow> string \<Rightarrow> pyval list \<Rightarrow> pyval py" where
  "java_obj_call J self name args s =
     (case getattr s self ''_java_obj'' of
        Inl e \<Rightarrow> (Inl e, s)
      | Inr target \<Rightarrow> call_member J target name args s)"

definition createMap :: "jvm \<Rightarrow> pyval \<Rightarrow> pyval \<Rightarrow> pyval py" where
  "createMap J self input_path = java_obj_call J self ''createMap'' [input_path]"

definition setPreferredMethod :: "jvm \<Rightarrow> pyval \<Rightarrow> pyval \<Rightarrow> pyval py" where
  "setPreferredMethod J self value = java_obj_call J self ''setPreferredMethod'' [value]"

definition getPreferredMethod :: "jvm \<Rightarrow> pyval \<Rightarrow> pyval py" where
  "getPreferredMethod J self = java_obj_call J self ''getPreferredMethod'' []"

definition setFallbackMethod :: "jvm \<Rightarrow> pyval \<Rightarrow> pyval \<Rightarrow> pyval py" where
  "setFallbackMethod J self value = java_obj_call J self ''setFallbackMethod'' [value]"

definition getFallbackMethod :: "jvm \<Rightarrow> pyval \<Rightarrow> pyval py" where
  "getFallbackMethod J self = java_obj_call J self ''getFallbackMethod'' []"

definition setMinSizeBeforeFallback :: "jvm \<Rightarrow> pyval \<Rightarrow> pyval \<Rightarrow> pyval py" where
  "setMinSizeBeforeFallback J self value = java_obj_call J self ''setMinSizeBeforeFallback'' [value]"

definition getMinSizeBeforeFallback :: "jvm \<Rightarrow> pyval \<Rightarrow> pyval py" where
  "getMinSizeBeforeFallback J self = java_obj_call J self ''getMinSizeBeforeFallback'' []"

definition setEngineMode :: "jvm \<Rightarrow> pyval \<Rightarrow> pyval \<Rightarrow> pyval py" where
  "setEngineMode J self mode = java_obj_call J self ''setEngineMode'' [mode]"

definition getEngineMode :: "jvm \<Rightarrow> pyval \<Rightarrow> pyval py" where
  "getEngineMode J self = java_obj_call J self ''getEngineMode'' []"

definition setPageSegMode :: "jvm \<Rightarrow> pyval \<Rightarrow> pyval \<Rightarrow> pyval py" where
  "setPageSegMode J self mode = java_obj_call J self ''setPageSegMode'' [mode]"

definition getPageSegMode :: "jvm \<Rightarrow> pyval \<Rightarrow> pyval py" where
  "getPageSegMode J self = java_obj_call J self ''getPageSegMode'' []"

definition setPageIteratorLevel :: "jvm \<Rightarrow> pyval \<Rightarrow> pyval \<Rightarrow> pyval py" where
  "setPageIteratorLevel J self level = java_obj_call J self ''setPageIteratorLevel'' [level]"

definition getPageIteratorLevel :: "jvm \<Rightarrow> pyval \<Rightarrow> pyval py" where
  "getPageIteratorLevel J self = java_obj_call J self ''getPageIteratorLevel'' []"

definition setScalingFactor :: "jvm \<Rightarrow> pyval \<Rightarrow> pyval \<Rightarrow> pyval py" where
  "setScalingFactor J self factor = java_obj_call J self ''setScalingFactor'' [factor]"

definition setSplitPages :: "jvm \<Rightarrow> pyval \<Rightarrow> pyval \<Rightarrow> pyval py" where
  "setSplitPages J self value = java_obj_call J self ''setSplitPages'' [value]"

definition getSplitPages :: "jvm \<Rightarrow> pyval \<Rightarrow> pyval py" where
  "getSplitPages J self = java_obj_call J self ''getSplitPages'' []"

definition setSplitRegions :: "jvm \<Rightarrow> pyval \<Rightarrow> pyval \<Rightarrow> pyval py" where
  "setSplitRegions J self value = java_obj_call J self ''setSplitRegions'' [value]"

definition getSplitRegions :: "jvm \<Rightarrow> pyval \<Rightarrow> pyval py" where
  "getSplitRegions J self = java_obj_call J self ''getSplitRegions'' []"

text \<open>\<^verbatim>\<open>def useErosion(self, use, k_size=2, k_shape=0)\<close>: the body, on its three parameters.\<close>

definition useErosion :: "jvm \<Rightarrow> pyval \<Rightarrow> pyval \<Rightarrow> pyval \<Rightarrow> pyval \<Rightarrow> pyval py" where
  "useErosion J self use k_size k_shape = java_obj_call J self ''useErosion'' [use, k_size, k_shape]"

subsection \<open>Calling a method with an argument list\<close>

text \<open>
  A call \<^verbatim>\<open>helper.name(*args)\<close> binds the positional arguments to the parameters of the
  \<^verbatim>\<open>def\<close>: a list of the wrong length raises TypeError before the body runs, and the
  parameters of \<^verbatim>\<open>useErosion\<close> that have a default take it when the list is shorter.
\<close>

datatype ocr_method =
    M_createMap
  | M_setPreferredMethod | M_getPreferredMethod
  | M_setFallbackMethod | M_getFallbackMethod
  | M_setMinSizeBeforeFallback | M_getMinSizeBeforeFallback
  | M_setEngineMode | M_getEngineMode
  | M_setPageSegMode | M_getPageSegMode
  | M_setPageIteratorLevel | M_getPageIteratorLevel
  | M_setScalingFactor
  | M_setSplitPages | M_getSplitPages
  | M_setSplitRegions | M_getSplitRegions
  | M_useErosion

fun method_name :: "ocr_method \<Rightarrow> string" where
  "method_name M_createMap = ''createMap''"
| "method_name M_setPreferredMethod = ''setPreferredMethod''"
| "method_name M_getPreferredMethod = ''getPreferredMethod''"
| "method_name M_setFallbackMethod = ''setFallbackMethod''"
| "method_name M_getFallbackMethod = ''getFallbackMethod''"
| "method_name M_setMinSizeBeforeFallback = ''setMinSizeBeforeFallback''"
| "method_name M_getMinSizeBeforeFallback = ''getMinSizeBeforeFallback''"
| "method_name M_setEngineMode = ''setEngineMode''"
| "method_name M_getEngineMode = ''getEngineMode''"
| "method_name M_setPageSegMode = ''setPageSegMode''"
| "method_name M_getPageSegMode = ''getPageSegMode''"
| "method_name M_setPageIteratorLevel = ''setPageIteratorLevel''"
| "method_name M_getPageIteratorLevel = ''getPageIteratorLevel''"
| "method_name M_setScalingFactor = ''setScalingFactor''"
| "method_name M_setSplitPages = ''setSplitPages''"
| "method_name M_getSplitPages = ''getSplitPages''"
| "method_name M_setSplitRegions = ''setSplitRegions''"
| "method_name M_getSplitRegions = ''getSplitRegions''"
| "method_name M_useErosion = ''useErosion''"

definition bind0 :: "string \<Rightarrow> pyval py \<Rightarrow> pyval list \<Rightarrow> pyval py" where
  "bind0 name body args s = (case args of [] \<Rightarrow> body s | _ \<Rightarrow> (Inl (TypeError name), s))"

definition bind1 :: "string \<Rightarrow> (pyval \<Rightarrow> pyval py) \<Rightarrow> pyval list \<Rightarrow> pyval py" where
  "bind1 name body args s = (case args of [a] \<Rightarrow> body a s | _ \<Rightarrow> (Inl (TypeError name), s))"

definition bind_useErosion :: "(pyval \<Rightarrow> pyval \<Rightarrow> pyval \<Rightarrow> pyval py) \<Rightarrow> pyval list \<Rightarrow> pyval py" where
  "bind_useErosion body args s =
     (case args of
        [use] \<Rightarrow> body use (PInt 2) (PInt 0) s
      | [use, k_size] \<Rightarrow> body use k_size (PInt 0) s
      | [use, k_size, k_shape] \<Rightarrow> body use k_size k_shape s
      | _ \<Rightarrow> (Inl (TypeError ''useErosion''), s))"

fun call_method :: "jvm \<Rightarrow> pyval \<Rightarrow> ocr_method \<Rightarrow> pyval list \<Rightarrow> pyval py" where
  "call_method J self M_createMap = bind1 ''createMap'' (createMap J self)"
| "call_method J self M_setPreferredMethod = bind1 ''setPreferredMethod'' (setPreferredMethod J self)"
| "call_method J self M_getPreferredMethod = bind0 ''getPreferredMethod'' (getPreferredMethod J self)"
| "call_method J self M_setFallbackMethod = bind1 ''setFallbackMethod'' (setFallbackMethod J self)"
| "call_method J self M_getFallbackMethod = bind0 ''getFallbackMethod'' (getFallbackMethod J self)"
| "call_method J self M_setMinSizeBeforeFallback =
     bind1 ''setMinSizeBeforeFallback'' (setMinSizeBeforeFallback J self)"
| "call_method J self M_getMinSizeBeforeFallback =
     bind0 ''getMinSizeBeforeFallback'' (getMinSizeBeforeFallback J self)"
| "call_method J self M_setEngineMode = bind1 ''setEngineMode'' (setEngineMode J self)"
| "call_method J self M_getEngineMode = bind0 ''getEngineMode'' (getEngineMode J self)"
| "call_method J self M_setPageSegMode = bind1 ''setPageSegMode'' (setPageSegMode J self)"
| "call_method J self M_getPageSegMode = bind0 ''getPageSegMode'' (getPageSegMode J self)"
| "call_method J self M_setPageIteratorLevel = bind1 ''setPageIteratorLevel'' (setPageIteratorLevel J self)"
| "call_method J self M_getPageIteratorLevel = bind0 ''getPageIteratorLevel'' (getPageIteratorLevel J self)"
| "call_method J self M_setScalingFactor = bind1 ''setScalingFactor'' (setScalingFactor J self)"
| "call_method J self M_setSplitPages = bind1 ''setSplitPages'' (setSplitPages J self)"
| "call_method J self M_getSplitPages = bind0 ''getSplitPages'' (getSplitPages J self)"
| "call_method J self M_setSplitRegions = bind1 ''setSplitRegions'' (setSplitRegions J self)"
| "call_method J self M_getSplitRegions = bind0 ''getSplitRegions'' (getSplitRegions J self)"
| "call_method J self M_useErosion = bind_useErosion (useErosion J self)"

text \<open>
  What the signature of each method accepts, and the parameter values a list is bound
  to; both are read off the \<^verbatim>\<open>def\<close> lines and are what the statements below compare
  the forwarded call with.
\<close>

fun accepts :: "ocr_method \<Rightarrow> nat \<Rightarrow> bool" where
  "accepts M_createMap n = (n = 1)"
| "accepts M_setPreferredMethod n = (n = 1)"
| "accepts M_getPreferredMethod n = (n = 0)"
| "accepts M_setFallbackMethod n = (n = 1)"
| "accepts M_getFallbackMethod n = (n = 0)"
| "accepts M_setMinSizeBeforeFallback n = (n = 1)"
| "accepts M_getMinSizeBeforeFallback n = (n = 0)"
| "accepts M_setEngineMode n = (n = 1)"
| "accepts M_getEngineMode n = (n = 0)"
| "accepts M_setPageSegMode n = (n = 1)"
| "accepts M_getPageSegMode n = (n = 0)"
| "accepts M_setPageIteratorLevel n = (n = 1)"
| "accepts M_getPageIteratorLevel n = (n = 0)"
| "accepts M_setScalingFactor n = (n = 1)"
| "accepts M_setSplitPages n = (n = 1)"
| "accepts M_getSplitPages n = (n = 0)"
| "accepts M_setSplitRegions n = (n = 1)"
| "accepts M_getSplitRegions n = (n = 0)"
| "accepts M_useErosion n = (1 \<le> n \<and> n \<le> 3)"

definition defaults :: "ocr_method \<Rightarrow> pyval list" where
  "defaults m = (if m = M_useErosion then [PInt 2, PInt 0] else [])"
  \<comment> \<open>the default values of the trailing parameters\<close>

definition max_args :: "ocr_method \<Rightarrow> nat" where
  "max_args m = (if m = M_useErosion then 3 else if accepts m 1 then 1 else 0)"

definition bound_args :: "ocr_method \<Rightarrow> pyval list \<Rightarrow> pyval list" where
  "bound_args m args =
     args @ drop (length (defaults m) - (max_args m - length args)) (defaults m)"
  \<comment> \<open>the argument list, completed with the defaults of the parameters it leaves out\<close>

subsection \<open>drawRectangle\<close>

text \<open>
  \<^verbatim>\<open>
  def drawRectangle(self, spark, path, coordinates):
      jcoords = list(map(lambda c: c.java_obj, coordinates))
      return self._java_obj.drawRectangle(spark._jsparkSession, path, jcoords)
  \<close>
  \<open>coordinates\<close> is a Python list. \<open>map_java_obj\<close> is the first line: it reads
  \<^verbatim>\<open>c.java_obj\<close> from left to right and stops at the first element that has none.
\<close>

fun map_java_obj :: "world \<Rightarrow> pyval list \<Rightarrow> pyerror + pyval list" where
  "map_java_obj s [] = Inr []"
| "map_java_obj s (c # cs) =
     (case getattr s c ''java_obj'' of
        Inl e \<Rightarrow> Inl e
      | Inr jc \<Rightarrow> (case map_java_obj s cs of Inl e \<Rightarrow> Inl e | Inr jcs \<Rightarrow> Inr (jc # jcs)))"

definition drawRectangle :: "jvm \<Rightarrow> pyval \<Rightarrow> pyval \<Rightarrow> pyval \<Rightarrow> pyval list \<Rightarrow> pyval py" where
  "drawRectangle J self spark path coordinates s =
     (case map_java_obj s coordinates of
        Inl e \<Rightarrow> (Inl e, s)
      | Inr jcoords \<Rightarrow>
          (case getattr s self ''_java_obj'' of
             Inl e \<Rightarrow> (Inl e, s)
           | Inr target \<Rightarrow>
               (case target of
                  JavaObject j \<Rightarrow>
                    (case getattr s spark ''_jsparkSession'' of
                       Inl e \<Rightarrow> (Inl e, s)
                     | Inr js \<Rightarrow> remote_call J (Invoke j ''drawRectangle'' [js, path, PList jcoords]) s)
                | _ \<Rightarrow> (Inl (AttributeError ''drawRectangle''), s))))"

subsection \<open>Construction\<close>

text \<open>
  Modelled from the spec: the base class \<^verbatim>\<open>ExtendedJavaWrapper\<close> of
  \<^verbatim>\<open>sparknlp.internal\<close> is not among the source files. The spec has construction bind the
  proxy to a remote-side class name, forward the constructor arguments to the remote
  constructor, and keep the one remote object handle so created for the object's
  lifetime. The source reads that handle under the names \<^verbatim>\<open>_java_obj\<close> (the proxy
  methods) and \<^verbatim>\<open>java_obj\<close> (\<^verbatim>\<open>drawRectangle\<close>), so the initialiser stores it under
  both. A fault of the remote constructor is raised as it comes.
\<close>

definition ExtendedJavaWrapper_init :: "jvm \<Rightarrow> addr \<Rightarrow> string \<Rightarrow> pyval list \<Rightarrow> unit py" where
  "ExtendedJavaWrapper_init J self java_class args s =
     (case remote_call J (New java_class args) s of
        (Inl e, s') \<Rightarrow> (Inl e, s')
      | (Inr jobj, s') \<Rightarrow>
          (Inr (), setattr self ''java_obj'' jobj (setattr self ''_java_obj'' jobj s')))"

definition ExtendedJavaWrapper :: pyclass where
  "ExtendedJavaWrapper = PyClass ''ExtendedJavaWrapper'' []"

definition OcrHelper :: pyclass where
  "OcrHelper = PyClass ''OcrHelper'' [ExtendedJavaWrapper]"

definition Coordinate :: pyclass where
  "Coordinate = PyClass ''Coordinate'' [ExtendedJavaWrapper]"

text \<open>
  \<^verbatim>\<open>
  def __init__(self):
      super(OcrHelper, self).__init__("com.johnsnowlabs.nlp.util.io.OcrHelper")
  \<close>
\<close>

definition OcrHelper_init :: "jvm \<Rightarrow> addr \<Rightarrow> unit py" where
  "OcrHelper_init J self = ExtendedJavaWrapper_init J self ''com.johnsnowlabs.nlp.util.io.OcrHelper'' []"

text \<open>
  \<^verbatim>\<open>
  def __init__(self, i, p, x, y, w, h):
      super(Coordinate, self).__init__("com.johnsnowlabs.nlp.util.io.schema.Coordinate", i, p, x, y, w, h)
      self.i = i
      self.p = p
      self.x = x
      self.y = y
      self.w = w
      self.h = h
  \<close>
\<close>

definition Coordinate_init ::
  "jvm \<Rightarrow> addr \<Rightarrow> pyval \<Rightarrow> pyval \<Rightarrow> pyval \<Rightarrow> pyval \<Rightarrow> pyval \<Rightarrow> pyval \<Rightarrow> unit py" where
  "Coordinate_init J self i p x y w h s =
     (case ExtendedJavaWrapper_init J self
             ''com.johnsnowlabs.nlp.util.io.schema.Coordinate'' [i, p, x, y, w, h] s of
        (Inl e, s') \<Rightarrow> (Inl e, s')
      | (Inr u, s') \<Rightarrow>
          (Inr (),
           setattr self ''h'' h (setattr self ''w'' w (setattr self ''y'' y
             (setattr self ''x'' x (setattr self ''p'' p (setattr self ''i'' i s')))))))"

text \<open>
  The constructor calls \<^verbatim>\<open>OcrHelper()\<close> and \<^verbatim>\<open>Coordinate(i, p, x, y, w, h)\<close>: a new
  object of the class is allocated, initialised, and returned unless the initialiser
  raises.
\<close>

definition new_OcrHelper :: "jvm \<Rightarrow> pyval py" where
  "new_OcrHelper J s =
     (case alloc OcrHelper s of
        (a, s1) \<Rightarrow>
          (case OcrHelper_init J a s1 of
             (Inl e, s2) \<Rightarrow> (Inl e, s2)
           | (Inr u, s2) \<Rightarrow> (Inr (PRef a), s2)))"

definition new_Coordinate ::
  "jvm \<Rightarrow> pyval \<Rightarrow> pyval \<Rightarrow> pyval \<Rightarrow> pyval \<Rightarrow> pyval \<Rightarrow> pyval \<Rightarrow> pyval py" where
  "new_Coordinate J i p x y w h s =
     (case alloc Coordinate s of
        (a, s1) \<Rightarrow>
          (case Coordinate_init J a i p x y w h s1 of
             (Inl e, s2) \<Rightarrow> (Inl e, s2)
           | (Inr u, s2) \<Rightarrow> (Inr (PRef a), s2)))"

subsection \<open>The operations of the module\<close>

text \<open>
  Everything \<^verbatim>\<open>ocr.py\<close> offers a caller: the two constructors and the methods of the
  helper. A caller may go on after an operation has raised, so a sequence of operations
  threads the world through all of them.
\<close>

datatype operation =
    Op_OcrHelper
  | Op_Coordinate pyval pyval pyval pyval pyval pyval
  | Op_createDataset pyval pyval pyval
  | Op_drawRectangle pyval pyval pyval "pyval list"
  | Op_method pyval ocr_method "pyval list"

fun perform :: "jvm \<Rightarrow> operation \<Rightarrow> pyval py" where
  "perform J Op_OcrHelper = new_OcrHelper J"
| "perform J (Op_Coordinate i p x y w h) = new_Coordinate J i p x y w h"
| "perform J (Op_createDataset self spark input_path) = createDataset J self spark input_path"
| "perform J (Op_drawRectangle self spark path coordinates) =
     drawRectangle J self spark path coordinates"
| "perform J (Op_method self m args) = call_method J self m args"

fun perform_all :: "jvm \<Rightarrow> operation list \<Rightarrow> world \<Rightarrow> world" where
  "perform_all J [] s = s"
| "perform_all J (op # ops) s = perform_all J ops (snd (perform J op s))"

section \<open>The spell-checker script\<close>

text \<open>
  \<^verbatim>\<open>run.py\<close> is a module body that runs from top to bottom. What it does is what it
  asks of its surroundings: it reads three files, and it calls the tensor framework and
  the language-model class. The model keeps those calls, in order, as the trace of a run;
  the surroundings are the files (a path has a content or does not exist) and a predicate
  telling which call raises, given the calls before it. The first fault ends the run.
  Float literals are written as the decimal they denote; nothing is computed with them.
\<close>

record rnnlm_args =
  vocab_size :: int
  batch_size :: int
  num_epochs :: int
  check_point_step :: int
  num_train_samples :: int
  num_valid_samples :: int
  num_layers :: int
  num_hidden_units :: int
  initial_learning_rate :: real
  final_learning_rate :: real
  max_gradient_norm :: real

datatype action =
    SetEnviron string string
  | SessionEnter real bool
  | SessionExit
  | RNNLM rnnlm_args
  | RunGlobalVariablesInitializer
  | LoadClasses string
  | LoadVocab string
  | Saver
  | BatchTrain string string
  | ResetDefaultGraph
  | Restore string
  | Save string
  | Predict "string list"
  \<comment> \<open>\<open>SessionEnter f l\<close>: entering \<^verbatim>\<open>with tf.Session(config=tf.ConfigProto(...))\<close> with
      GPU memory fraction \<open>f\<close> and \<^verbatim>\<open>log_device_placement\<close> \<open>l\<close>; \<open>SessionExit\<close>: leaving
      the block\<close>

datatype script_error = IOError string | Fault action

type_synonym files = "string \<rightharpoonup> string"
type_synonym faults = "action list \<Rightarrow> action \<Rightarrow> bool"

definition TRAIN :: bool where "TRAIN = False"
definition VERBOSE :: bool where "VERBOSE = True"

definition data_path :: string where "data_path = ''/home/jose/spark-nlp-models/data/''"
definition model_name :: string where "model_name = ''gutenberg_65''"
definition train_file :: string where "train_file = model_name @ ''.txt.ids''"
definition classes_file :: string where "classes_file = model_name @ ''.txt.classes''"
definition vocab_file :: string where "vocab_file = model_name @ ''.txt.vocab''"
definition valid_file :: string where "valid_file = ''valid.ids''"
definition model_path :: string where
  "model_path = ''/home/jose/spark-nlp-old/python/sparknlp/spellchecker/model/best_model.ckpt''"
definition vocab_path :: string where "vocab_path = data_path @ vocab_file"

text \<open>
  \<^verbatim>\<open>fp.readlines()\<close>: the content cut after every newline; what follows the last newline
  is a line too when it is not empty. The content of a file is its text as \<^verbatim>\<open>open\<close>
  hands it over, decoded and with line ends already turned into the newline character.
\<close>

fun readlines :: "string \<Rightarrow> string list" where
  "readlines [] = []"
| "readlines (c # cs) =
     (if c = CHR 0x0A then [c] # readlines cs
      else (case readlines cs of [] \<Rightarrow> [[c]] | l # ls \<Rightarrow> (c # l) # ls))"

text \<open>\<^verbatim>\<open>with open(path) as fp: n = len(fp.readlines())\<close>\<close>

definition len_readlines :: "files \<Rightarrow> string \<Rightarrow> script_error + int" where
  "len_readlines fs path =
     (case fs path of None \<Rightarrow> Inl (IOError path) | Some content \<Rightarrow> Inr (int (length (readlines content))))"

text \<open>
  The number of lines of a text, as the words say it: one for every newline, and one
  more for a last line that no newline ends.
\<close>

definition line_count :: "string \<Rightarrow> nat" where
  "line_count content =
     count_list content (CHR 0x0A) + (if content = [] \<or> last content = CHR 0x0A then 0 else 1)"

definition test_sentences :: "string list \<times> string list" where
  "test_sentences =
     ([''she came to me in an unexpected gesture'',
       ''she came to me in an unexpected day'',
       ''she came to me in an unexpected car'',
       ''she came to me in an unexpected morning'',
       ''she came to me in an unexpected way'',
       ''she came to me in an unexpected dream''],
      [''gesture'', ''day'', ''car'', ''morning'', ''way'', ''dream''])"

text \<open>
  \<^verbatim>\<open>create_model(sess)\<close> builds the model from the three module-level sizes and the fixed
  hyperparameters, then runs the variable initialiser: two calls.
\<close>

definition create_model :: "int \<Rightarrow> int \<Rightarrow> int \<Rightarrow> action list" where
  "create_model n_vocab n_train n_valid =
     [RNNLM \<lparr>vocab_size = n_vocab, batch_size = 2, num_epochs = 5, check_point_step = 20000,
             num_train_samples = n_train, num_valid_samples = n_valid, num_layers = 1,
             num_hidden_units = 300, initial_learning_rate = 7 / 10,
             final_learning_rate = 5 / 10000, max_gradient_norm = 5\<rparr>,
      RunGlobalVariablesInitializer]"

text \<open>Calls made one after the other; the one that raises is the last of the run.\<close>

fun run_actions :: "faults \<Rightarrow> action list \<Rightarrow> action list \<Rightarrow> (script_error + unit) \<times> action list" where
  "run_actions F [] tr = (Inr (), tr)"
| "run_actions F (a # as) tr =
     (if F tr a then (Inl (Fault a), tr @ [a]) else run_actions F as (tr @ [a]))"

text \<open>
  \<^verbatim>\<open>with tf.Session(config=...) as sess: body\<close>: the block is left, and the session
  closed, also when the body raises.
\<close>

definition with_session ::
  "faults \<Rightarrow> real \<Rightarrow> bool \<Rightarrow> action list \<Rightarrow> action list \<Rightarrow> (script_error + unit) \<times> action list" where
  "with_session F fraction log_device_placement body tr =
     (if F tr (SessionEnter fraction log_device_placement)
      then (Inl (Fault (SessionEnter fraction log_device_placement)),
            tr @ [SessionEnter fraction log_device_placement])
      else (case run_actions F body (tr @ [SessionEnter fraction log_device_placement]) of
              (r, tr') \<Rightarrow> (r, tr' @ [SessionExit])))"

text \<open>The body of \<^verbatim>\<open>if TRAIN:\<close> (lines 72 to 80).\<close>

definition train_block :: "int \<Rightarrow> int \<Rightarrow> int \<Rightarrow> action list" where
  "train_block n_vocab n_train n_valid =
     create_model n_vocab n_train n_valid @
     [LoadClasses (data_path @ classes_file),
      LoadVocab vocab_path,
      Saver,
      BatchTrain (data_path @ train_file) (data_path @ valid_file)]"

text \<open>The body of the second \<^verbatim>\<open>with\<close> (lines 87 to 94).\<close>

definition restore_block :: "int \<Rightarrow> int \<Rightarrow> int \<Rightarrow> action list" where
  "restore_block n_vocab n_train n_valid =
     create_model n_vocab n_train n_valid @
     [LoadClasses (data_path @ classes_file),
      LoadVocab vocab_path,
      Saver,
      Restore model_path,
      Save ''bundle'',
      Predict (fst test_sentences)]"

text \<open>
  Lines 29 to 36: the three sizes the module computes before it builds a model, in the
  order \<^verbatim>\<open>num_train_samples\<close>, \<^verbatim>\<open>num_valid_samples\<close>, \<^verbatim>\<open>vocab_size\<close>. A file that
  does not exist ends the run.
\<close>

definition sizes :: "files \<Rightarrow> script_error + (int \<times> int \<times> int)" where
  "sizes fs =
     (case len_readlines fs (data_path @ train_file) of
        Inl e \<Rightarrow> Inl e
      | Inr n_train \<Rightarrow>
          (case len_readlines fs (data_path @ valid_file) of
             Inl e \<Rightarrow> Inl e
           | Inr n_valid \<Rightarrow>
               (case len_readlines fs vocab_path of
                  Inl e \<Rightarrow> Inl e
                | Inr n_vocab \<Rightarrow> Inr (n_train, n_valid, n_vocab))))"

text \<open>
  The module body, with the flag as a parameter. Line 71 guards the training block;
  lines 82 to 94 follow it outside the \<^verbatim>\<open>if\<close>.
\<close>

definition script :: "bool \<Rightarrow> files \<Rightarrow> faults \<Rightarrow> (script_error + unit) \<times> action list" where
  "script train fs F =
     (let tr0 = [SetEnviron ''TF_CPP_MIN_LOG_LEVEL'' ''3''] in
      case sizes fs of
        Inl e \<Rightarrow> (Inl e, tr0)
      | Inr (n_train, n_valid, n_vocab) \<Rightarrow>
          (case (if train
                 then with_session F (99 / 100) True (train_block n_vocab n_train n_valid) tr0
                 else (Inr (), tr0)) of
             (Inl e, tr1) \<Rightarrow> (Inl e, tr1)
           | (Inr u, tr1) \<Rightarrow>
               (case run_actions F [ResetDefaultGraph] tr1 of
                  (Inl e, tr2) \<Rightarrow> (Inl e, tr2)
                | (Inr u, tr2) \<Rightarrow>
                    with_session F (99 / 100) False (restore_block n_vocab n_train n_valid) tr2)))"

text \<open>
  The calls of a run in which nothing raises, for the three sizes: the training block
  when the flag is set, then the reset and the restore block.
\<close>

definition full_trace :: "bool \<Rightarrow> int \<Rightarrow> int \<Rightarrow> int \<Rightarrow> action list" where
  "full_trace train n_train n_valid n_vocab =
     [SetEnviron ''TF_CPP_MIN_LOG_LEVEL'' ''3''] @
     (if train then [SessionEnter (99 / 100) True] @ train_block n_vocab n_train n_valid @ [SessionExit]
      else []) @
     [ResetDefaultGraph] @
     [SessionEnter (99 / 100) False] @ restore_block n_vocab n_train n_valid @ [SessionExit]"

text \<open>The three calls that only the restore block makes.\<close>

fun restore_step :: "action \<Rightarrow> bool" where
  "restore_step (Restore path) = True"
| "restore_step (Save name) = True"
| "restore_step (Predict xs) = True"
| "restore_step a = False"

section \<open>Concrete inputs\<close>

text \<open>
  A world with a helper bound to the remote handle 0, a session, and an instance of a
  class derived from \<open>SparkSession\<close>; a remote side that answers every call with a new
  handle, and one that fails every call.
\<close>

definition helper_obj :: pyobj where
  "helper_obj = \<lparr>obj_class = OcrHelper,
                 obj_dict = [''_java_obj'' \<mapsto> JavaObject 0, ''java_obj'' \<mapsto> JavaObject 0]\<rparr>"

definition session_obj :: pyobj where
  "session_obj = \<lparr>obj_class = SparkSession, obj_dict = [''_jsparkSession'' \<mapsto> JavaObject 1]\<rparr>"

definition subsession_obj :: pyobj where
  "subsession_obj = \<lparr>obj_class = PyClass ''MySession'' [SparkSession],
                     obj_dict = [''_jsparkSession'' \<mapsto> JavaObject 1]\<rparr>"

definition w0 :: world where
  "w0 = \<lparr>heap = [helper_obj, session_obj, subsession_obj], trace = []\<rparr>"

definition faulty_jvm :: jvm where
  "faulty_jvm tr c = Inl (JFault ''java.io.FileNotFoundException'')"

definition echo_jvm :: jvm where
  "echo_jvm tr c = Inr (JavaObject (length tr + 10))"

definition w1 :: world where
  "w1 = snd (new_Coordinate echo_jvm (PInt 0) (PInt 1) (PInt 10) (PInt 20) (PInt 30) (PInt 40) w0)"

definition ops0 :: "operation list" where
  "ops0 = [Op_method (PRef 0) M_setScalingFactor [PInt 2],
           Op_Coordinate (PInt 1) (PInt 1) (PInt 5) (PInt 5) (PInt 8) (PInt 8),
           Op_drawRectangle (PRef 0) (PRef 1) (PStr ''/scans/a.pdf'') [PRef 3, PRef 4],
           Op_createDataset (PRef 0) (PRef 1) (PStr ''/scans'')]"

text \<open>Three small corpus files, and surroundings in which no call raises.\<close>

definition files0 :: files where
  "files0 = [data_path @ train_file \<mapsto> ''4 8 15\<newline>16 23 42'',
             data_path @ valid_file \<mapsto> ''4 8\<newline>'',
             vocab_path \<mapsto> ''she\<newline>came\<newline>to\<newline>'']"

definition no_faults :: faults where
  "no_faults tr a = False"

text \<open>Surroundings in which restoring the checkpoint raises, and a disk without the files.\<close>

definition restore_fails :: faults where
  "restore_fails tr a = (a = Restore model_path)"

definition no_files :: files where
  "no_files path = None"

definition args0 :: rnnlm_args where
  "args0 = \<lparr>vocab_size = 3, batch_size = 2, num_epochs = 5, check_point_step = 20000,
            num_train_samples = 2, num_valid_samples = 1, num_layers = 1,
            num_hidden_units = 300, initial_learning_rate = 7 / 10,
            final_learning_rate = 5 / 10000, max_gradient_norm = 5\<rparr>"

section \<open>Properties of the OCR proxy\<close>

subsection \<open>createDataset\<close>

lemmas w0_simps = w0_def helper_obj_def session_obj_def subsession_obj_def lookup_def getattr_def
  SparkSession_def OcrHelper_def ExtendedJavaWrapper_def

lemma getattr_error: "getattr s v name = Inl e \<Longrightarrow> e = AttributeError name"
  by (auto simp add: getattr_def split: pyval.splits option.splits)

text \<open>
  C8. \<^verbatim>\<open>createDataset\<close> rejects every first argument whose exact type is not
  \<open>SparkSession\<close>. The test is an equality of types, not an instance-of test: an
  instance of a proper subclass of \<open>SparkSession\<close> is rejected as well.
\<close>

theorem createDataset_exact_type:
  "(type_of s spark \<noteq> SparkSession \<longrightarrow>
      fst (createDataset J self spark input_path s) = Inl (PyException ''spark must be SparkSession''))
   \<and> (isinstance s spark SparkSession \<and> type_of s spark \<noteq> SparkSession \<longrightarrow>
      fst (createDataset J self spark input_path s) = Inl (PyException ''spark must be SparkSession''))"
  by (simp add: createDataset_def)

text \<open>
  An instance of \<open>MySession\<close>, a class derived from \<open>SparkSession\<close>, is an instance of
  \<open>SparkSession\<close> and is rejected.
\<close>

theorem createDataset_exact_type_witness:
  "isinstance w0 (PRef 2) SparkSession \<and> type_of w0 (PRef 2) \<noteq> SparkSession
   \<and> fst (createDataset echo_jvm (PRef 0) (PRef 2) (PStr ''/scans'') w0)
       = Inl (PyException ''spark must be SparkSession'')"
proof -
  have sub: "isinstance w0 (PRef 2) SparkSession"
    by (simp add: isinstance_def w0_simps)
  have ne: "type_of w0 (PRef 2) \<noteq> SparkSession"
    by (simp add: w0_simps)
  from createDataset_exact_type [of w0 "PRef 2" echo_jvm "PRef 0" "PStr ''/scans''"] sub ne
  show ?thesis by blast
qed

text \<open>
  C9. When \<^verbatim>\<open>createDataset\<close> raises because its first argument is not a
  \<open>SparkSession\<close>, it has made no remote call: the world, and in it the trace of remote
  calls, is what it was, and the outcome does not depend on the remote side.
\<close>

theorem createDataset_error_before_remote:
  assumes "type_of s spark \<noteq> SparkSession"
  shows "snd (createDataset J self spark input_path s) = s
         \<and> trace (snd (createDataset J self spark input_path s)) = trace s
         \<and> createDataset J self spark input_path s = createDataset J' self spark input_path s"
  using assms by (simp add: createDataset_def)

text \<open>With an integer in the place of the session.\<close>

theorem createDataset_error_before_remote_witness:
  "type_of w0 (PInt 7) \<noteq> SparkSession
   \<and> snd (createDataset echo_jvm (PRef 0) (PInt 7) (PStr ''/scans'') w0) = w0
   \<and> trace (snd (createDataset echo_jvm (PRef 0) (PInt 7) (PStr ''/scans'') w0)) = trace w0
   \<and> createDataset echo_jvm (PRef 0) (PInt 7) (PStr ''/scans'') w0
       = createDataset faulty_jvm (PRef 0) (PInt 7) (PStr ''/scans'') w0"
proof -
  have ne: "type_of w0 (PInt 7) \<noteq> SparkSession"
    by (simp add: SparkSession_def)
  from createDataset_error_before_remote [OF ne, of echo_jvm "PRef 0" "PStr ''/scans''" faulty_jvm] ne
  show ?thesis by blast
qed

text \<open>
  C2, as stated, has \<^verbatim>\<open>createDataset\<close> raise if and only if \<open>spark\<close> is not a session
  object. With a session whose remote call fails, the call raises all the same: the
  remote fault comes through unchanged.
\<close>

theorem createDataset_remote_fault_counterexample:
  "\<not> (isl (fst (createDataset faulty_jvm (PRef 0) (PRef 1) (PStr ''/scans'') w0))
        \<longleftrightarrow> type_of w0 (PRef 1) \<noteq> SparkSession)"
  by (simp add: createDataset_def remote_call_def faulty_jvm_def w0_simps)

text \<open>
  C2, amended. \<^verbatim>\<open>createDataset\<close> raises its own exception, \<open>spark must be
  SparkSession\<close>, if and only if the exact type of \<open>spark\<close> is not \<open>SparkSession\<close>. When
  it is, and the helper holds a remote handle and the session its \<^verbatim>\<open>_jsparkSession\<close>,
  the call makes the one remote call \<^verbatim>\<open>createDataset(spark._jsparkSession, input_path)\<close>;
  what the remote side returns comes back as a \<open>DataFrame\<close> paired with \<open>spark\<close>, and a
  remote fault is raised as it comes.
\<close>

theorem createDataset_session:
  "(fst (createDataset J self spark input_path s) = Inl (PyException ''spark must be SparkSession'')
      \<longleftrightarrow> type_of s spark \<noteq> SparkSession)
   \<and> (type_of s spark = SparkSession \<and> getattr s self ''_java_obj'' = Inr (JavaObject j)
        \<and> getattr s spark ''_jsparkSession'' = Inr js \<longrightarrow>
      createDataset J self spark input_path s =
        ((case J (trace s) (Invoke j ''createDataset'' [js, input_path]) of
            Inl f \<Rightarrow> Inl (Py4JJavaError f)
          | Inr jdf \<Rightarrow> Inr (DataFrame jdf spark)),
         s\<lparr>trace := trace s @ [Invoke j ''createDataset'' [js, input_path]]\<rparr>))"
  by (auto simp add: createDataset_def remote_call_def split: sum.splits pyval.splits
        dest: getattr_error)

text \<open>With a session and a remote side that answers.\<close>

theorem createDataset_session_witness:
  "type_of w0 (PRef 1) = SparkSession
   \<and> createDataset echo_jvm (PRef 0) (PRef 1) (PStr ''/scans'') w0 =
       (Inr (DataFrame (JavaObject 10) (PRef 1)),
        w0\<lparr>trace := [Invoke 0 ''createDataset'' [JavaObject 1, PStr ''/scans'']]\<rparr>)"
proof -
  have ty: "type_of w0 (PRef 1) = SparkSession" by (simp add: w0_simps)
  have a: "getattr w0 (PRef 0) ''_java_obj'' = Inr (JavaObject 0)" by (simp add: w0_simps)
  have b: "getattr w0 (PRef 1) ''_jsparkSession'' = Inr (JavaObject 1)" by (simp add: w0_simps)
  have tr: "trace w0 = []" by (simp add: w0_def)
  from createDataset_session [of echo_jvm "PRef 0" "PRef 1" "PStr ''/scans''" w0 0 "JavaObject 1"] ty a b
  show ?thesis by (simp add: echo_jvm_def tr)
qed

subsection \<open>The pass-through methods\<close>

lemma java_obj_call_forwards:
  "getattr s self ''_java_obj'' = Inr (JavaObject j) \<Longrightarrow>
   java_obj_call J self name args s = remote_call J (Invoke j name args) s"
  by (simp add: java_obj_call_def call_member_def)

lemmas method_defs = createMap_def setPreferredMethod_def getPreferredMethod_def
  setFallbackMethod_def getFallbackMethod_def setMinSizeBeforeFallback_def
  getMinSizeBeforeFallback_def setEngineMode_def getEngineMode_def setPageSegMode_def
  getPageSegMode_def setPageIteratorLevel_def getPageIteratorLevel_def setScalingFactor_def
  setSplitPages_def getSplitPages_def setSplitRegions_def getSplitRegions_def useErosion_def

lemma length_0_1_3:
  "length xs = 0 \<longleftrightarrow> xs = []"
  "length xs = Suc 0 \<longleftrightarrow> (\<exists>a. xs = [a])"
  by (cases xs; simp)+

lemma useErosion_lists:
  "1 \<le> length xs \<and> length xs \<le> 3 \<Longrightarrow>
   (\<exists>a. xs = [a]) \<or> (\<exists>a b. xs = [a, b]) \<or> (\<exists>a b c. xs = [a, b, c])"
  by (cases xs; simp; (cases "tl xs"; simp; (cases "tl (tl xs)"; simp)))

lemma call_method_remote:
  assumes "getattr s self ''_java_obj'' = Inr (JavaObject j)" and "accepts m (length args)"
  shows "call_method J self m args s = remote_call J (Invoke j (method_name m) (bound_args m args)) s"
proof (cases "m = M_useErosion")
  case True
  with assms(2) useErosion_lists [of args]
  consider a where "args = [a]" | a b where "args = [a, b]" | a b c where "args = [a, b, c]"
    by auto
  then show ?thesis
    using True assms(1)
    by cases (simp_all add: bind_useErosion_def useErosion_def java_obj_call_forwards
        bound_args_def defaults_def max_args_def)
next
  case False
  with assms show ?thesis
    by (cases m)
       (auto simp add: bind0_def bind1_def method_defs java_obj_call_forwards
          bound_args_def defaults_def max_args_def length_0_1_3)
qed

text \<open>
  C3, amended. For each of the nineteen pass-through methods and every argument list
  its signature accepts, the call makes exactly one remote call, to the method of the
  same name on the helper's remote object, with the bound parameter values in order, and
  gives back the remote outcome unchanged, value or fault. The bound values are the
  argument list itself, except for \<^verbatim>\<open>useErosion\<close> called with fewer than three
  arguments, where \<open>k_size\<close> and \<open>k_shape\<close> are completed with their defaults 2 and 0.
\<close>

theorem call_method_forwards:
  assumes "getattr s self ''_java_obj'' = Inr (JavaObject j)" and "accepts m (length args)"
  shows "call_method J self m args s =
           ((case J (trace s) (Invoke j (method_name m) (bound_args m args)) of
               Inl f \<Rightarrow> Inl (Py4JJavaError f) | Inr v \<Rightarrow> Inr v),
            s\<lparr>trace := trace s @ [Invoke j (method_name m) (bound_args m args)]\<rparr>)
         \<and> (m \<noteq> M_useErosion \<or> length args = 3 \<longrightarrow> bound_args m args = args)"
proof -
  have "m \<noteq> M_useErosion \<or> length args = 3 \<longrightarrow> bound_args m args = args"
    by (auto simp add: bound_args_def defaults_def max_args_def)
  with call_method_remote [OF assms, of J] show ?thesis
    by (simp add: remote_call_def)
qed

text \<open>A setter with its one argument, and \<^verbatim>\<open>useErosion\<close> with two of its three.\<close>

theorem call_method_forwards_witness:
  "getattr w0 (PRef 0) ''_java_obj'' = Inr (JavaObject 0)
   \<and> accepts M_setEngineMode (length [PInt 3])
   \<and> call_method echo_jvm (PRef 0) M_setEngineMode [PInt 3] w0 =
       (Inr (JavaObject 10), w0\<lparr>trace := [Invoke 0 ''setEngineMode'' [PInt 3]]\<rparr>)
   \<and> accepts M_useErosion (length [PBool True, PInt 3])
   \<and> call_method echo_jvm (PRef 0) M_useErosion [PBool True, PInt 3] w0 =
       (Inr (JavaObject 10), w0\<lparr>trace := [Invoke 0 ''useErosion'' [PBool True, PInt 3, PInt 0]]\<rparr>)"
proof -
  have a: "getattr w0 (PRef 0) ''_java_obj'' = Inr (JavaObject 0)" by (simp add: w0_simps)
  have b: "accepts M_setEngineMode (length [PInt 3])" by simp
  have c: "accepts M_useErosion (length [PBool True, PInt 3])" by simp
  have tr: "trace w0 = []" by (simp add: w0_def)
  from call_method_forwards [OF a b, of echo_jvm] call_method_forwards [OF a c, of echo_jvm] a b c
  show ?thesis by (simp add: echo_jvm_def tr bound_args_def defaults_def max_args_def)
qed

text \<open>
  C3, as stated, has every method forward exactly the argument list of the call.
  \<^verbatim>\<open>helper.useErosion(True)\<close> forwards \<open>(True, 2, 0)\<close>, not \<open>(True)\<close>.
\<close>

theorem useErosion_defaults_counterexample:
  "trace (snd (call_method echo_jvm (PRef 0) M_useErosion [PBool True] w0))
     = trace w0 @ [Invoke 0 ''useErosion'' [PBool True, PInt 2, PInt 0]]
   \<and> trace (snd (call_method echo_jvm (PRef 0) M_useErosion [PBool True] w0))
     \<noteq> trace w0 @ [Invoke 0 ''useErosion'' [PBool True]]"
  by (simp add: bind_useErosion_def useErosion_def java_obj_call_def call_member_def
      remote_call_def w0_simps)

text \<open>An argument list the signature does not accept raises TypeError and forwards nothing.\<close>

lemma call_method_rejects:
  "\<not> accepts m (length args) \<Longrightarrow> call_method J self m args s = (Inl (TypeError (method_name m)), s)"
  by (cases m; cases args; auto simp add: bind0_def bind1_def bind_useErosion_def split: list.splits)

subsection \<open>drawRectangle\<close>

lemma map_java_obj_Inr:
  "map (\<lambda>c. getattr s c ''java_obj'') coordinates = map Inr jcoords \<Longrightarrow>
   map_java_obj s coordinates = Inr jcoords"
  by (induction coordinates arbitrary: jcoords) auto

text \<open>
  C6. For a helper bound to a remote object, a session and a list of coordinates that
  each hold a remote handle, \<^verbatim>\<open>drawRectangle\<close> makes one remote call
  \<^verbatim>\<open>drawRectangle\<close> with the session's underlying handle, the path unchanged, and
  the list of the coordinates' handles, as long as the input list and in its order, and
  gives back the remote outcome unchanged.
\<close>

theorem drawRectangle_forwards:
  assumes "getattr s self ''_java_obj'' = Inr (JavaObject j)"
    and "getattr s spark ''_jsparkSession'' = Inr js"
    and "map (\<lambda>c. getattr s c ''java_obj'') coordinates = map Inr jcoords"
  shows "drawRectangle J self spark path coordinates s =
           ((case J (trace s) (Invoke j ''drawRectangle'' [js, path, PList jcoords]) of
               Inl f \<Rightarrow> Inl (Py4JJavaError f) | Inr v \<Rightarrow> Inr v),
            s\<lparr>trace := trace s @ [Invoke j ''drawRectangle'' [js, path, PList jcoords]]\<rparr>)
         \<and> length jcoords = length coordinates
         \<and> (\<forall>k < length coordinates. getattr s (coordinates ! k) ''java_obj'' = Inr (jcoords ! k))"
proof -
  from assms(3) have len: "length jcoords = length coordinates"
    by (metis length_map)
  have nth: "\<forall>k < length coordinates. getattr s (coordinates ! k) ''java_obj'' = Inr (jcoords ! k)"
  proof (intro allI impI)
    fix k assume k: "k < length coordinates"
    from assms(3) have "map (\<lambda>c. getattr s c ''java_obj'') coordinates ! k = map Inr jcoords ! k"
      by simp
    with k len show "getattr s (coordinates ! k) ''java_obj'' = Inr (jcoords ! k)"
      by simp
  qed
  from assms(1,2) map_java_obj_Inr [OF assms(3)] len nth show ?thesis
    by (simp add: drawRectangle_def remote_call_def)
qed

subsection \<open>Construction of a coordinate\<close>

lemma trace_setattr: "trace (setattr a name v s) = trace s"
  by (simp add: setattr_def)

lemma length_heap_setattr: "length (heap (setattr a name v s)) = length (heap s)"
  by (simp add: setattr_def)

lemma getattr_setattr:
  "a < length (heap s) \<Longrightarrow>
   getattr (setattr a name v s) (PRef a) name' = (if name' = name then Inr v else getattr s (PRef a) name')"
  by (simp add: setattr_def getattr_def lookup_def)

lemma obj_class_setattr: "obj_class (heap (setattr a name v s) ! b) = obj_class (heap s ! b)"
  by (cases "a = b") (simp_all add: setattr_def)

lemma heap_setattr_last:
  "heap s = hp @ [ob] \<Longrightarrow> \<exists>ob'. heap (setattr (length hp) name v s) = hp @ [ob']"
  by (simp add: setattr_def)

lemma ExtendedJavaWrapper_init_result:
  "ExtendedJavaWrapper_init J a cls args s =
     (case J (trace s) (New cls args) of
        Inl f \<Rightarrow> (Inl (Py4JJavaError f), s\<lparr>trace := trace s @ [New cls args]\<rparr>)
      | Inr jobj \<Rightarrow>
          (Inr (), setattr a ''java_obj'' jobj
                     (setattr a ''_java_obj'' jobj (s\<lparr>trace := trace s @ [New cls args]\<rparr>))))"
  by (simp add: ExtendedJavaWrapper_init_def remote_call_def split: sum.splits)

lemma new_Coordinate_trace:
  "trace (snd (new_Coordinate J i p x y w h s)) =
     trace s @ [New ''com.johnsnowlabs.nlp.util.io.schema.Coordinate'' [i, p, x, y, w, h]]"
  by (simp add: new_Coordinate_def alloc_def Coordinate_init_def ExtendedJavaWrapper_init_result
      trace_setattr split: sum.splits)

lemma new_Coordinate_returns:
  "isl (fst (new_Coordinate J i p x y w h s)) \<longleftrightarrow>
   isl (J (trace s) (New ''com.johnsnowlabs.nlp.util.io.schema.Coordinate'' [i, p, x, y, w, h]))"
  by (simp add: new_Coordinate_def alloc_def Coordinate_init_def ExtendedJavaWrapper_init_result
      split: sum.splits)

lemma new_Coordinate_fields:
  assumes "new_Coordinate J i p x y w h s = (Inr c, s')"
  shows "c = PRef (length (heap s))" and "length (heap s) < length (heap s')"
    and "getattr s' c ''i'' = Inr i" and "getattr s' c ''p'' = Inr p"
    and "getattr s' c ''x'' = Inr x" and "getattr s' c ''y'' = Inr y"
    and "getattr s' c ''w'' = Inr w" and "getattr s' c ''h'' = Inr h"
    and "type_of s' c = Coordinate"
    and "\<exists>jobj. J (trace s) (New ''com.johnsnowlabs.nlp.util.io.schema.Coordinate'' [i, p, x, y, w, h]) = Inr jobj
           \<and> getattr s' c ''java_obj'' = Inr jobj \<and> getattr s' c ''_java_obj'' = Inr jobj"
  using assms
  by (auto simp add: new_Coordinate_def alloc_def Coordinate_init_def ExtendedJavaWrapper_init_result
      getattr_setattr length_heap_setattr obj_class_setattr lookup_def split: sum.splits)

text \<open>
  C5. Constructing \<^verbatim>\<open>Coordinate(i, p, x, y, w, h)\<close> calls the remote constructor of
  \<^verbatim>\<open>com.johnsnowlabs.nlp.util.io.schema.Coordinate\<close> with the same six values in that
  order and makes no other remote call; the object that results is a \<open>Coordinate\<close>
  whose attributes \<open>i, p, x, y, w, h\<close> are exactly those six values. The construction
  returns an object unless the remote constructor fails.
\<close>

theorem Coordinate_construction:
  "trace (snd (new_Coordinate J i p x y w h s)) =
     trace s @ [New ''com.johnsnowlabs.nlp.util.io.schema.Coordinate'' [i, p, x, y, w, h]]
   \<and> (new_Coordinate J i p x y w h s = (Inr c, s') \<longrightarrow>
        type_of s' c = Coordinate
        \<and> getattr s' c ''i'' = Inr i \<and> getattr s' c ''p'' = Inr p
        \<and> getattr s' c ''x'' = Inr x \<and> getattr s' c ''y'' = Inr y
        \<and> getattr s' c ''w'' = Inr w \<and> getattr s' c ''h'' = Inr h)
   \<and> (isl (fst (new_Coordinate J i p x y w h s)) \<longleftrightarrow>
        isl (J (trace s) (New ''com.johnsnowlabs.nlp.util.io.schema.Coordinate'' [i, p, x, y, w, h])))"
  using new_Coordinate_trace [of J i p x y w h s] new_Coordinate_returns [of J i p x y w h s]
    new_Coordinate_fields [of J i p x y w h s c s']
  by blast

subsection \<open>The operations leave existing objects alone\<close>

lemma heap_java_obj_call: "heap (snd (java_obj_call J self name args s)) = heap s"
  by (simp add: java_obj_call_def call_member_def remote_call_def split: sum.splits pyval.splits)

lemma heap_call_method: "heap (snd (call_method J self m args s)) = heap s"
  by (cases m)
     (simp_all add: bind0_def bind1_def bind_useErosion_def method_defs heap_java_obj_call
        split: list.splits)

lemma heap_createDataset: "heap (snd (createDataset J self spark input_path s)) = heap s"
  by (simp add: createDataset_def remote_call_def split: sum.splits pyval.splits)

lemma heap_drawRectangle: "heap (snd (drawRectangle J self spark path coordinates s)) = heap s"
  by (simp add: drawRectangle_def remote_call_def split: sum.splits pyval.splits)

lemma heap_ExtendedJavaWrapper_init:
  assumes "heap s = hp @ [ob]"
  shows "\<exists>ob'. heap (snd (ExtendedJavaWrapper_init J (length hp) cls args s)) = hp @ [ob']"
proof (cases "J (trace s) (New cls args)")
  case (Inl f)
  with assms show ?thesis by (simp add: ExtendedJavaWrapper_init_result)
next
  case (Inr jobj)
  let ?sa = "s\<lparr>trace := trace s @ [New cls args]\<rparr>"
  from assms have "heap ?sa = hp @ [ob]" by simp
  from heap_setattr_last [OF this] obtain ob1
    where h1: "heap (setattr (length hp) ''_java_obj'' jobj ?sa) = hp @ [ob1]" by blast
  from heap_setattr_last [OF h1] obtain ob2
    where "heap (setattr (length hp) ''java_obj'' jobj (setattr (length hp) ''_java_obj'' jobj ?sa))
             = hp @ [ob2]" by blast
  with Inr show ?thesis by (simp add: ExtendedJavaWrapper_init_result)
qed

lemma heap_new_OcrHelper: "\<exists>ext. heap (snd (new_OcrHelper J s)) = heap s @ ext"
proof -
  let ?sa = "s\<lparr>heap := heap s @ [\<lparr>obj_class = OcrHelper, obj_dict = Map.empty\<rparr>]\<rparr>"
  have "heap ?sa = heap s @ [\<lparr>obj_class = OcrHelper, obj_dict = Map.empty\<rparr>]" by simp
  from heap_ExtendedJavaWrapper_init [OF this]
  obtain ob' where "heap (snd (OcrHelper_init J (length (heap s)) ?sa)) = heap s @ [ob']"
    unfolding OcrHelper_init_def by blast
  then show ?thesis
    by (auto simp add: new_OcrHelper_def alloc_def split: prod.splits sum.splits)
qed

lemma heap_Coordinate_init:
  assumes "heap s = hp @ [ob]"
  shows "\<exists>ob'. heap (snd (Coordinate_init J (length hp) i p x y w h s)) = hp @ [ob']"
proof -
  let ?r = "ExtendedJavaWrapper_init J (length hp)
              ''com.johnsnowlabs.nlp.util.io.schema.Coordinate'' [i, p, x, y, w, h] s"
  from heap_ExtendedJavaWrapper_init [OF assms]
  obtain ob0 where h0: "heap (snd ?r) = hp @ [ob0]" by blast
  show ?thesis
  proof (cases "fst ?r")
    case (Inl e)
    with h0 show ?thesis
      by (cases ?r) (simp add: Coordinate_init_def)
  next
    case (Inr u)
    from heap_setattr_last [OF h0] obtain o1
      where h1: "heap (setattr (length hp) ''i'' i (snd ?r)) = hp @ [o1]" by blast
    from heap_setattr_last [OF h1] obtain o2
      where h2: "heap (setattr (length hp) ''p'' p (setattr (length hp) ''i'' i (snd ?r))) = hp @ [o2]"
      by blast
    from heap_setattr_last [OF h2] obtain o3
      where h3: "heap (setattr (length hp) ''x'' x (setattr (length hp) ''p'' p
                   (setattr (length hp) ''i'' i (snd ?r)))) = hp @ [o3]"
      by blast
    from heap_setattr_last [OF h3] obtain o4
      where h4: "heap (setattr (length hp) ''y'' y (setattr (length hp) ''x'' x
                   (setattr (length hp) ''p'' p (setattr (length hp) ''i'' i (snd ?r))))) = hp @ [o4]"
      by blast
    from heap_setattr_last [OF h4] obtain o5
      where h5: "heap (setattr (length hp) ''w'' w (setattr (length hp) ''y'' y
                   (setattr (length hp) ''x'' x (setattr (length hp) ''p'' p
                   (setattr (length hp) ''i'' i (snd ?r)))))) = hp @ [o5]"
      by blast
    from heap_setattr_last [OF h5] obtain o6
      where h6: "heap (setattr (length hp) ''h'' h (setattr (length hp) ''w'' w
                   (setattr (length hp) ''y'' y (setattr (length hp) ''x'' x
                   (setattr (length hp) ''p'' p (setattr (length hp) ''i'' i (snd ?r))))))) = hp @ [o6]"
      by blast
    from Inr h6 show ?thesis
      by (cases ?r) (simp add: Coordinate_init_def)
  qed
qed

lemma heap_new_Coordinate: "\<exists>ext. heap (snd (new_Coordinate J i p x y w h s)) = heap s @ ext"
proof -
  let ?sa = "s\<lparr>heap := heap s @ [\<lparr>obj_class = Coordinate, obj_dict = Map.empty\<rparr>]\<rparr>"
  have "heap ?sa = heap s @ [\<lparr>obj_class = Coordinate, obj_dict = Map.empty\<rparr>]" by simp
  from heap_Coordinate_init [OF this]
  obtain ob' where "heap (snd (Coordinate_init J (length (heap s)) i p x y w h ?sa)) = heap s @ [ob']"
    by blast
  then show ?thesis
    by (auto simp add: new_Coordinate_def alloc_def split: prod.splits sum.splits)
qed

lemma heap_perform: "\<exists>ext. heap (snd (perform J op s)) = heap s @ ext"
  by (cases op)
     (simp_all add: heap_new_OcrHelper heap_new_Coordinate heap_createDataset heap_drawRectangle
        heap_call_method)

lemma heap_perform_all: "\<exists>ext. heap (perform_all J ops s) = heap s @ ext"
proof (induction ops arbitrary: s)
  case Nil
  show ?case by simp
next
  case (Cons op ops)
  from heap_perform [of J op s] obtain e1 where e1: "heap (snd (perform J op s)) = heap s @ e1"
    by blast
  from Cons.IH [of "snd (perform J op s)"] obtain e2
    where "heap (perform_all J ops (snd (perform J op s))) = heap (snd (perform J op s)) @ e2"
    by blast
  with e1 show ?case by simp
qed

lemma getattr_heap_append:
  "heap s' = heap s @ ext \<Longrightarrow> a < length (heap s) \<Longrightarrow>
   getattr s' (PRef a) name = getattr s (PRef a) name"
  by (simp add: getattr_def lookup_def nth_append)

lemma getattr_perform_all:
  "a < length (heap s) \<Longrightarrow> getattr (perform_all J ops s) (PRef a) name = getattr s (PRef a) name"
  using heap_perform_all [of J ops s] getattr_heap_append by blast

text \<open>
  C4. After \<^verbatim>\<open>Coordinate(i, p, x, y, w, h)\<close> has returned an object, no operation of
  the module changes its six fields: after any sequence of constructor and method calls,
  with any arguments and whatever the remote side answers, reading \<open>i, p, x, y, w, h\<close>
  from the object gives the values it was constructed with.
\<close>

theorem Coordinate_fields_immutable:
  assumes "new_Coordinate J i p x y w h s = (Inr c, s')"
  shows "getattr (perform_all J' ops s') c ''i'' = Inr i
       \<and> getattr (perform_all J' ops s') c ''p'' = Inr p
       \<and> getattr (perform_all J' ops s') c ''x'' = Inr x
       \<and> getattr (perform_all J' ops s') c ''y'' = Inr y
       \<and> getattr (perform_all J' ops s') c ''w'' = Inr w
       \<and> getattr (perform_all J' ops s') c ''h'' = Inr h"
proof -
  note f = new_Coordinate_fields [OF assms]
  from f(1,2) have "\<And>name. getattr (perform_all J' ops s') c name = getattr s' c name"
    by (simp add: getattr_perform_all)
  with f(3-8) show ?thesis by simp
qed

subsection \<open>A coordinate built in the concrete world\<close>

lemma new_Coordinate_w0:
  "new_Coordinate echo_jvm (PInt 0) (PInt 1) (PInt 10) (PInt 20) (PInt 30) (PInt 40) w0 = (Inr (PRef 3), w1)"
proof -
  have "fst (new_Coordinate echo_jvm (PInt 0) (PInt 1) (PInt 10) (PInt 20) (PInt 30) (PInt 40) w0)
          = Inr (PRef 3)"
    by (simp add: new_Coordinate_def alloc_def Coordinate_init_def ExtendedJavaWrapper_init_result
        echo_jvm_def w0_def)
  then show ?thesis
    unfolding w1_def by (metis prod.collapse)
qed

text \<open>The coordinate \<open>(0, 1, 10, 20, 30, 40)\<close>, built in the concrete world.\<close>

theorem Coordinate_construction_witness:
  "new_Coordinate echo_jvm (PInt 0) (PInt 1) (PInt 10) (PInt 20) (PInt 30) (PInt 40) w0 = (Inr (PRef 3), w1)
   \<and> trace w1 = [New ''com.johnsnowlabs.nlp.util.io.schema.Coordinate''
                   [PInt 0, PInt 1, PInt 10, PInt 20, PInt 30, PInt 40]]
   \<and> type_of w1 (PRef 3) = Coordinate
   \<and> getattr w1 (PRef 3) ''i'' = Inr (PInt 0) \<and> getattr w1 (PRef 3) ''p'' = Inr (PInt 1)
   \<and> getattr w1 (PRef 3) ''x'' = Inr (PInt 10) \<and> getattr w1 (PRef 3) ''y'' = Inr (PInt 20)
   \<and> getattr w1 (PRef 3) ''w'' = Inr (PInt 30) \<and> getattr w1 (PRef 3) ''h'' = Inr (PInt 40)"
proof -
  have tr: "trace w0 = []" by (simp add: w0_def)
  have sn: "snd (new_Coordinate echo_jvm (PInt 0) (PInt 1) (PInt 10) (PInt 20) (PInt 30) (PInt 40) w0) = w1"
    by (simp only: w1_def)
  from Coordinate_construction [of echo_jvm "PInt 0" "PInt 1" "PInt 10" "PInt 20" "PInt 30" "PInt 40"
      w0 "PRef 3" w1] new_Coordinate_w0
  show ?thesis by (simp only: tr sn append_Nil snd_conv simp_thms)
qed

text \<open>
  The same coordinate after a setter call, the construction of another coordinate, a
  rectangle drawing and a dataset creation.
\<close>

theorem Coordinate_fields_immutable_witness:
  "new_Coordinate echo_jvm (PInt 0) (PInt 1) (PInt 10) (PInt 20) (PInt 30) (PInt 40) w0 = (Inr (PRef 3), w1)
   \<and> getattr (perform_all echo_jvm ops0 w1) (PRef 3) ''i'' = Inr (PInt 0)
   \<and> getattr (perform_all echo_jvm ops0 w1) (PRef 3) ''p'' = Inr (PInt 1)
   \<and> getattr (perform_all echo_jvm ops0 w1) (PRef 3) ''x'' = Inr (PInt 10)
   \<and> getattr (perform_all echo_jvm ops0 w1) (PRef 3) ''y'' = Inr (PInt 20)
   \<and> getattr (perform_all echo_jvm ops0 w1) (PRef 3) ''w'' = Inr (PInt 30)
   \<and> getattr (perform_all echo_jvm ops0 w1) (PRef 3) ''h'' = Inr (PInt 40)"
  using Coordinate_fields_immutable [OF new_Coordinate_w0, of echo_jvm ops0] new_Coordinate_w0
  by blast

lemma getattr_w1_old:
  "a < 3 \<Longrightarrow> getattr w1 (PRef a) name = getattr w0 (PRef a) name"
proof -
  assume a: "a < 3"
  from heap_new_Coordinate [of echo_jvm "PInt 0" "PInt 1" "PInt 10" "PInt 20" "PInt 30" "PInt 40" w0]
  obtain ext where "heap w1 = heap w0 @ ext" unfolding w1_def by blast
  moreover from a have "a < length (heap w0)" by (simp add: w0_def)
  ultimately show ?thesis by (rule getattr_heap_append)
qed

lemma trace_w1:
  "trace w1 = [New ''com.johnsnowlabs.nlp.util.io.schema.Coordinate''
                [PInt 0, PInt 1, PInt 10, PInt 20, PInt 30, PInt 40]]"
  unfolding w1_def by (simp add: new_Coordinate_trace w0_def)

lemma java_obj_w1: "getattr w1 (PRef 3) ''java_obj'' = Inr (JavaObject 10)"
  using new_Coordinate_fields(10) [OF new_Coordinate_w0]
  by (auto simp add: echo_jvm_def w0_def)

text \<open>
  Drawing with two handle-bearing objects: the coordinate built above and the helper
  itself, which holds a \<^verbatim>\<open>java_obj\<close> too.
\<close>

theorem drawRectangle_forwards_witness:
  "getattr w1 (PRef 0) ''_java_obj'' = Inr (JavaObject 0)
   \<and> getattr w1 (PRef 1) ''_jsparkSession'' = Inr (JavaObject 1)
   \<and> map (\<lambda>c. getattr w1 c ''java_obj'') [PRef 3, PRef 0] = map Inr [JavaObject 10, JavaObject 0]
   \<and> drawRectangle echo_jvm (PRef 0) (PRef 1) (PStr ''/scans/a.pdf'') [PRef 3, PRef 0] w1 =
       (Inr (JavaObject 11),
        w1\<lparr>trace := trace w1 @ [Invoke 0 ''drawRectangle''
                 [JavaObject 1, PStr ''/scans/a.pdf'', PList [JavaObject 10, JavaObject 0]]]\<rparr>)"
proof -
  have a: "getattr w1 (PRef 0) ''_java_obj'' = Inr (JavaObject 0)"
    using getattr_w1_old [of 0 "''_java_obj''"] by (simp add: w0_simps)
  have b: "getattr w1 (PRef 1) ''_jsparkSession'' = Inr (JavaObject 1)"
    using getattr_w1_old [of 1 "''_jsparkSession''"] by (simp add: w0_simps)
  have "getattr w1 (PRef 0) ''java_obj'' = Inr (JavaObject 0)"
    using getattr_w1_old [of 0 "''java_obj''"] by (simp add: w0_simps)
  then have c: "map (\<lambda>c. getattr w1 c ''java_obj'') [PRef 3, PRef 0]
                  = map Inr [JavaObject 10, JavaObject 0]"
    by (simp add: java_obj_w1)
  have e: "echo_jvm (trace w1) (Invoke 0 ''drawRectangle''
             [JavaObject 1, PStr ''/scans/a.pdf'', PList [JavaObject 10, JavaObject 0]])
           = Inr (JavaObject 11)"
    by (simp add: echo_jvm_def trace_w1)
  from drawRectangle_forwards [OF a b c, of echo_jvm "PStr ''/scans/a.pdf''"] a b c
  show ?thesis by (simp only: e sum.case simp_thms)
qed

section \<open>Properties of the spell-checker script\<close>

subsection \<open>Line counts\<close>

lemmas path_defs = data_path_def train_file_def valid_file_def vocab_path_def vocab_file_def
  model_name_def classes_file_def

lemma readlines_Nil: "readlines cs = [] \<longleftrightarrow> cs = []"
  by (cases cs) (auto split: list.splits)

lemma length_readlines: "length (readlines content) = line_count content"
proof (induction content)
  case Nil
  show ?case by (simp add: line_count_def)
next
  case (Cons c cs)
  note IH = Cons.IH
  show ?case
  proof (cases "c = CHR 0x0A")
    case True
    with IH show ?thesis by (simp add: line_count_def)
  next
    case False
    show ?thesis
    proof (cases "cs = []")
      case True
      with False show ?thesis by (simp add: line_count_def)
    next
      case nonempty: False
      with readlines_Nil [of cs] have "readlines cs \<noteq> []" by blast
      then obtain l ls where "readlines cs = l # ls" by (cases "readlines cs") auto
      with False IH nonempty show ?thesis by (simp add: line_count_def)
    qed
  qed
qed

subsection \<open>Runs and their traces\<close>

lemma run_actions_complete: "run_actions F as tr = (Inr (), tr') \<Longrightarrow> tr' = tr @ as"
  by (induction F as tr rule: run_actions.induct) (auto split: if_splits)

lemma run_actions_no_fault: "(\<forall>tr a. \<not> F tr a) \<Longrightarrow> run_actions F as tr = (Inr (), tr @ as)"
  by (induction as arbitrary: tr) auto

lemma run_actions_subset: "set (snd (run_actions F as tr)) \<subseteq> set tr \<union> set as"
  by (induction F as tr rule: run_actions.induct) (auto split: if_splits)

lemma with_session_complete:
  "with_session F f l body tr = (Inr (), tr') \<Longrightarrow> tr' = tr @ [SessionEnter f l] @ body @ [SessionExit]"
  by (auto simp add: with_session_def split: if_splits prod.splits dest: run_actions_complete)

lemma with_session_subset:
  "set (snd (with_session F f l body tr)) \<subseteq> set tr \<union> {SessionEnter f l, SessionExit} \<union> set body"
  using run_actions_subset [of F body "tr @ [SessionEnter f l]"]
  by (auto simp add: with_session_def split: prod.splits)

lemma script_complete:
  assumes "sizes fs = Inr (n_train, n_valid, n_vocab)" and "fst (script train fs F) = Inr ()"
  shows "snd (script train fs F) = full_trace train n_train n_valid n_vocab"
proof -
  let ?tr0 = "[SetEnviron ''TF_CPP_MIN_LOG_LEVEL'' ''3'']"
  let ?t = "if train then with_session F (99 / 100) True (train_block n_vocab n_train n_valid) ?tr0
            else (Inr (), ?tr0)"
  obtain r1 tr1 where t: "?t = (r1, tr1)" by (cases ?t)
  from assms t have r1: "r1 = Inr ()"
    by (cases r1) (auto simp add: script_def)
  have tr1: "tr1 = ?tr0 @ (if train then [SessionEnter (99 / 100) True]
                @ train_block n_vocab n_train n_valid @ [SessionExit] else [])"
    using t r1 by (auto split: if_splits dest: with_session_complete)
  obtain r2 tr2 where a: "run_actions F [ResetDefaultGraph] tr1 = (r2, tr2)"
    by (cases "run_actions F [ResetDefaultGraph] tr1")
  from assms t r1 a have r2: "r2 = Inr ()"
    by (cases r2) (auto simp add: script_def simp del: run_actions.simps)
  from a r2 have tr2: "tr2 = tr1 @ [ResetDefaultGraph]"
    using run_actions_complete [of F "[ResetDefaultGraph]" tr1 tr2] by blast
  from assms t r1 a r2
  have eq: "script train fs F = with_session F (99 / 100) False (restore_block n_vocab n_train n_valid) tr2"
    by (simp add: script_def del: run_actions.simps)
  obtain tr3 where "with_session F (99 / 100) False (restore_block n_vocab n_train n_valid) tr2 = (Inr (), tr3)"
    using assms(2) eq by (metis prod.collapse)
  with eq with_session_complete [OF this] tr2 tr1 show ?thesis
    by (simp add: full_trace_def)
qed

lemma script_no_fault:
  assumes "sizes fs = Inr (n_train, n_valid, n_vocab)" and "\<forall>tr a. \<not> F tr a"
  shows "script train fs F = (Inr (), full_trace train n_train n_valid n_vocab)"
  using assms
  by (simp add: script_def with_session_def run_actions_no_fault full_trace_def)

lemma sizes_Some:
  assumes "fs (data_path @ train_file) = Some a" and "fs (data_path @ valid_file) = Some b"
    and "fs vocab_path = Some c"
  shows "sizes fs = Inr (int (line_count a), int (line_count b), int (line_count c))"
  using assms by (simp add: sizes_def len_readlines_def length_readlines)

lemma files0_sizes: "sizes files0 = Inr (2, 1, 3)"
proof -
  have "files0 (data_path @ train_file) = Some ''4 8 15\<newline>16 23 42''"
    and "files0 (data_path @ valid_file) = Some ''4 8\<newline>''"
    and "files0 vocab_path = Some ''she\<newline>came\<newline>to\<newline>''"
    by (simp_all add: files0_def path_defs)
  from sizes_Some [OF this] show ?thesis by (simp add: line_count_def)
qed

lemma script_True_files0:
  "script True files0 no_faults = (Inr (), full_trace True 2 1 3)"
  by (rule script_no_fault [OF files0_sizes]) (simp add: no_faults_def)

text \<open>
  C1, as stated, has the flag choose exactly one of training and restore-and-inference.
  With the flag set, a run in which nothing raises trains and then also restores the
  checkpoint and runs the predictions.
\<close>

theorem train_then_restore_counterexample:
  "fst (script True files0 no_faults) = Inr ()
   \<and> BatchTrain (data_path @ train_file) (data_path @ valid_file) \<in> set (snd (script True files0 no_faults))
   \<and> Restore model_path \<in> set (snd (script True files0 no_faults))
   \<and> Predict (fst test_sentences) \<in> set (snd (script True files0 no_faults))"
  by (simp add: script_True_files0 full_trace_def train_block_def restore_block_def)

lemma sizes_of_complete:
  "fst (script train fs F) = Inr () \<Longrightarrow> \<exists>n_train n_valid n_vocab. sizes fs = Inr (n_train, n_valid, n_vocab)"
  by (cases "sizes fs") (auto simp add: script_def)

lemma run_actions_take: "\<exists>n. snd (run_actions F as tr) = tr @ take n as"
proof (induction F as tr rule: run_actions.induct)
  case (1 F tr)
  show ?case by simp
next
  case (2 F a as tr)
  show ?case
  proof (cases "F tr a")
    case True
    then have "snd (run_actions F (a # as) tr) = tr @ take 1 (a # as)" by simp
    then show ?thesis by blast
  next
    case False
    with 2 obtain n where "snd (run_actions F as (tr @ [a])) = (tr @ [a]) @ take n as" by blast
    with False have "snd (run_actions F (a # as) tr) = tr @ take (Suc n) (a # as)" by simp
    then show ?thesis by blast
  qed
qed

lemma script_subset:
  assumes "sizes fs = Inr (n_train, n_valid, n_vocab)"
  shows "set (snd (script train fs F)) \<subseteq> set (full_trace True n_train n_valid n_vocab)"
    and "\<not> train \<Longrightarrow> set (snd (script train fs F)) \<subseteq> set (full_trace False n_train n_valid n_vocab)"
proof -
  let ?tr0 = "[SetEnviron ''TF_CPP_MIN_LOG_LEVEL'' ''3'']"
  let ?ws1 = "with_session F (99 / 100) True (train_block n_vocab n_train n_valid) ?tr0"
  have w1: "set (snd ?ws1) \<subseteq> set (full_trace True n_train n_valid n_vocab)"
    using with_session_subset [of F "99 / 100" True "train_block n_vocab n_train n_valid" ?tr0]
    by (auto simp add: full_trace_def)
  have s2: "set (snd (run_actions F [ResetDefaultGraph] tr)) \<subseteq> set tr \<union> {ResetDefaultGraph}" for tr
    using run_actions_subset [of F "[ResetDefaultGraph]" tr] by simp
  have s3: "set (snd (with_session F (99 / 100) False (restore_block n_vocab n_train n_valid) tr))
              \<subseteq> set tr \<union> {SessionEnter (99 / 100) False, SessionExit}
                  \<union> set (restore_block n_vocab n_train n_valid)" for tr
    by (rule with_session_subset)
  show "set (snd (script train fs F)) \<subseteq> set (full_trace True n_train n_valid n_vocab)"
  proof (cases train)
    case True
    obtain r1 tr1 where w: "?ws1 = (r1, tr1)" by (cases ?ws1)
    with w1 have t1: "set tr1 \<subseteq> set (full_trace True n_train n_valid n_vocab)" by simp
    obtain r2 tr2 where a: "run_actions F [ResetDefaultGraph] tr1 = (r2, tr2)"
      by (cases "run_actions F [ResetDefaultGraph] tr1")
    with s2 [of tr1] t1 have t2: "set tr2 \<subseteq> set (full_trace True n_train n_valid n_vocab)"
      by (auto simp add: full_trace_def simp del: run_actions.simps)
    from s3 [of tr2] t2
    have t3: "set (snd (with_session F (99 / 100) False (restore_block n_vocab n_train n_valid) tr2))
                \<subseteq> set (full_trace True n_train n_valid n_vocab)"
      by (auto simp add: full_trace_def)
    from assms True w a t1 t2 t3 show ?thesis
      by (cases r1; cases r2) (simp_all add: script_def del: run_actions.simps)
  next
    case False
    obtain r2 tr2 where a: "run_actions F [ResetDefaultGraph] ?tr0 = (r2, tr2)"
      by (cases "run_actions F [ResetDefaultGraph] ?tr0")
    with s2 [of ?tr0] have t2: "set tr2 \<subseteq> set (full_trace True n_train n_valid n_vocab)"
      by (auto simp add: full_trace_def simp del: run_actions.simps)
    from s3 [of tr2] t2
    have t3: "set (snd (with_session F (99 / 100) False (restore_block n_vocab n_train n_valid) tr2))
                \<subseteq> set (full_trace True n_train n_valid n_vocab)"
      by (auto simp add: full_trace_def)
    from assms False a t2 t3 show ?thesis
      by (cases r2) (simp_all add: script_def del: run_actions.simps)
  qed
  show "set (snd (script train fs F)) \<subseteq> set (full_trace False n_train n_valid n_vocab)" if "\<not> train"
  proof -
    obtain r2 tr2 where a: "run_actions F [ResetDefaultGraph] ?tr0 = (r2, tr2)"
      by (cases "run_actions F [ResetDefaultGraph] ?tr0")
    with s2 [of ?tr0] have t2: "set tr2 \<subseteq> set (full_trace False n_train n_valid n_vocab)"
      by (auto simp add: full_trace_def simp del: run_actions.simps)
    from s3 [of tr2] t2
    have t3: "set (snd (with_session F (99 / 100) False (restore_block n_vocab n_train n_valid) tr2))
                \<subseteq> set (full_trace False n_train n_valid n_vocab)"
      by (auto simp add: full_trace_def)
    from assms that a t2 t3 show ?thesis
      by (cases r2) (simp_all add: script_def del: run_actions.simps)
  qed
qed

lemma restore_step_train_block: "a \<in> set (train_block n_vocab n_train n_valid) \<Longrightarrow> \<not> restore_step a"
  by (auto simp add: train_block_def create_model_def)

lemma script_trace_shape:
  "(\<forall>a \<in> set (snd (script train fs F)). \<not> restore_step a)
   \<or> (\<exists>pre n n_vocab n_train n_valid.
         snd (script train fs F) = pre @ take n (restore_block n_vocab n_train n_valid) @ [SessionExit]
         \<and> (\<forall>a \<in> set pre. \<not> restore_step a))"
proof (cases "sizes fs")
  case (Inl e)
  then show ?thesis by (simp add: script_def)
next
  case (Inr t)
  then obtain n_train n_valid n_vocab where sz: "sizes fs = Inr (n_train, n_valid, n_vocab)"
    by (cases t) auto
  let ?tr0 = "[SetEnviron ''TF_CPP_MIN_LOG_LEVEL'' ''3'']"
  let ?t = "if train then with_session F (99 / 100) True (train_block n_vocab n_train n_valid) ?tr0
            else (Inr (), ?tr0)"
  obtain r1 tr1 where t: "?t = (r1, tr1)" by (cases ?t)
  have p1: "\<forall>a \<in> set tr1. \<not> restore_step a"
  proof (cases train)
    case True
    with t with_session_subset [of F "99 / 100" True "train_block n_vocab n_train n_valid" ?tr0]
    have "set tr1 \<subseteq> set ?tr0 \<union> {SessionEnter (99 / 100) True, SessionExit}
            \<union> set (train_block n_vocab n_train n_valid)"
      by simp
    then show ?thesis
      using restore_step_train_block by fastforce
  next
    case False
    with t show ?thesis by auto
  qed
  obtain r2 tr2 where a: "run_actions F [ResetDefaultGraph] tr1 = (r2, tr2)"
    by (cases "run_actions F [ResetDefaultGraph] tr1")
  with run_actions_subset [of F "[ResetDefaultGraph]" tr1] p1
  have p2: "\<forall>a \<in> set tr2. \<not> restore_step a"
    by (auto simp del: run_actions.simps)
  show ?thesis
  proof (cases r1)
    case (Inl e)
    with sz t p1 show ?thesis by (simp add: script_def)
  next
    case r1: (Inr u)
    show ?thesis
    proof (cases r2)
      case (Inl e)
      with sz t r1 a p2 show ?thesis by (simp add: script_def del: run_actions.simps)
    next
      case r2: (Inr v)
      let ?rb = "restore_block n_vocab n_train n_valid"
      from sz t r1 a r2 have eq: "script train fs F = with_session F (99 / 100) False ?rb tr2"
        by (simp add: script_def del: run_actions.simps)
      show ?thesis
      proof (cases "F tr2 (SessionEnter (99 / 100) False)")
        case True
        with eq p2 show ?thesis by (simp add: with_session_def)
      next
        case False
        from run_actions_take [of F ?rb "tr2 @ [SessionEnter (99 / 100) False]"]
        obtain n where "snd (run_actions F ?rb (tr2 @ [SessionEnter (99 / 100) False]))
                          = (tr2 @ [SessionEnter (99 / 100) False]) @ take n ?rb"
          by blast
        with eq False
        have "snd (script train fs F) = (tr2 @ [SessionEnter (99 / 100) False]) @ take n ?rb @ [SessionExit]"
          by (simp add: with_session_def split: prod.splits)
        moreover from p2 have "\<forall>a \<in> set (tr2 @ [SessionEnter (99 / 100) False]). \<not> restore_step a"
          by simp
        ultimately show ?thesis by blast
      qed
    qed
  qed
qed

lemma take_restore_block_Predict:
  assumes "Predict xs \<in> set (take n (restore_block n_vocab n_train n_valid))"
  shows "take n (restore_block n_vocab n_train n_valid) = restore_block n_vocab n_train n_valid
         \<and> xs = fst test_sentences"
proof -
  let ?rb = "restore_block n_vocab n_train n_valid"
  have len: "length ?rb = 8" by (simp add: restore_block_def create_model_def)
  have "\<not> n \<le> 7"
  proof
    assume "n \<le> 7"
    then have "set (take n ?rb) \<subseteq> set (take 7 ?rb)" by (rule set_take_subset_set_take)
    with assms have "Predict xs \<in> set (take 7 ?rb)" by blast
    then show False by (simp add: restore_block_def create_model_def)
  qed
  with len have "take n ?rb = ?rb" by simp
  moreover from assms have "Predict xs \<in> set ?rb" by (meson in_set_takeD)
  then have "xs = fst test_sentences" by (simp add: restore_block_def create_model_def)
  ultimately show ?thesis by simp
qed

lemma restore_block_tail:
  "\<exists>front. restore_block n_vocab n_train n_valid =
     front @ [Restore model_path, Save ''bundle'', Predict (fst test_sentences)]
     \<and> (\<forall>a \<in> set front. \<not> restore_step a)"
  by (rule exI [of _ "create_model n_vocab n_train n_valid @
         [LoadClasses (data_path @ classes_file), LoadVocab vocab_path, Saver]"])
     (simp add: restore_block_def create_model_def)

lemma Predict_after_export:
  assumes "Predict xs \<in> set (snd (script train fs F))"
  shows "\<exists>pre. snd (script train fs F) =
           pre @ [Restore model_path, Save ''bundle'', Predict xs, SessionExit]
         \<and> (\<forall>a \<in> set pre. \<not> restore_step a)"
proof -
  from script_trace_shape [of train fs F] assms
  obtain pre n n_vocab n_train n_valid
    where sh: "snd (script train fs F) = pre @ take n (restore_block n_vocab n_train n_valid) @ [SessionExit]"
      and pre: "\<forall>a \<in> set pre. \<not> restore_step a"
    by fastforce
  from assms sh pre have "Predict xs \<in> set (take n (restore_block n_vocab n_train n_valid))"
    by auto
  from take_restore_block_Predict [OF this]
  have tk: "take n (restore_block n_vocab n_train n_valid) = restore_block n_vocab n_train n_valid"
    and xs: "xs = fst test_sentences" by simp_all
  from restore_block_tail [of n_vocab n_train n_valid] obtain front
    where fr: "restore_block n_vocab n_train n_valid =
                 front @ [Restore model_path, Save ''bundle'', Predict (fst test_sentences)]"
      and nf: "\<forall>a \<in> set front. \<not> restore_step a" by blast
  from sh tk fr xs
  have "snd (script train fs F) = (pre @ front) @ [Restore model_path, Save ''bundle'', Predict xs, SessionExit]"
    by simp
  moreover from pre nf have "\<forall>a \<in> set (pre @ front). \<not> restore_step a" by auto
  ultimately show ?thesis by blast
qed

lemma sizes_no_files: "sizes no_files = Inl (IOError (data_path @ train_file))"
  by (simp add: sizes_def len_readlines_def no_files_def)

text \<open>
  C10, as stated, has the export happen on every run. A run in which restoring the
  checkpoint raises ends there, and a run that does not find its files ends before any
  call to the framework: neither exports.
\<close>

theorem failed_restore_skips_export_counterexample:
  "fst (script False files0 restore_fails) = Inl (Fault (Restore model_path))
   \<and> Save ''bundle'' \<notin> set (snd (script False files0 restore_fails))
   \<and> fst (script False no_files no_faults) = Inl (IOError (data_path @ train_file))
   \<and> Save ''bundle'' \<notin> set (snd (script False no_files no_faults))"
proof -
  have "script False files0 restore_fails =
          (Inl (Fault (Restore model_path)),
           [SetEnviron ''TF_CPP_MIN_LOG_LEVEL'' ''3'', ResetDefaultGraph, SessionEnter (99 / 100) False]
           @ create_model 3 2 1
           @ [LoadClasses (data_path @ classes_file), LoadVocab vocab_path, Saver, Restore model_path,
              SessionExit])"
    by (simp add: script_def files0_sizes with_session_def restore_block_def create_model_def
        restore_fails_def)
  moreover have "script False no_files no_faults =
          (Inl (IOError (data_path @ train_file)), [SetEnviron ''TF_CPP_MIN_LOG_LEVEL'' ''3''])"
    by (simp add: script_def sizes_no_files)
  ultimately show ?thesis by (simp add: create_model_def)
qed

lemma take_restore_block_Save:
  assumes "Save name \<in> set (take n (restore_block n_vocab n_train n_valid))"
  shows "\<exists>front post. take n (restore_block n_vocab n_train n_valid) =
           front @ [Restore model_path, Save ''bundle''] @ post
         \<and> (\<forall>a \<in> set front. \<not> restore_step a) \<and> name = ''bundle''"
proof -
  let ?rb = "restore_block n_vocab n_train n_valid"
  let ?front = "create_model n_vocab n_train n_valid @
         [LoadClasses (data_path @ classes_file), LoadVocab vocab_path, Saver]"
  have rb: "?rb = ?front @ [Restore model_path, Save ''bundle'', Predict (fst test_sentences)]"
    by (simp add: restore_block_def)
  have fr: "\<forall>a \<in> set ?front. \<not> restore_step a" by (simp add: create_model_def)
  have lf: "length ?front = 5" by (simp add: create_model_def)
  have "\<not> n \<le> 6"
  proof
    assume "n \<le> 6"
    then have "set (take n ?rb) \<subseteq> set (take 6 ?rb)" by (rule set_take_subset_set_take)
    with assms have "Save name \<in> set (take 6 ?rb)" by blast
    then show False by (simp add: restore_block_def create_model_def)
  qed
  then have "n = 7 \<or> 8 \<le> n" by arith
  then have "take n ?rb = ?front @ [Restore model_path, Save ''bundle'']
             \<or> take n ?rb = ?front @ [Restore model_path, Save ''bundle''] @ [Predict (fst test_sentences)]"
  proof
    assume "n = 7"
    then show ?thesis by (simp add: restore_block_def create_model_def)
  next
    assume "8 \<le> n"
    then have "take n ?rb = ?rb" by (simp add: restore_block_def create_model_def)
    with rb show ?thesis by simp
  qed
  moreover from assms have "Save name \<in> set ?rb" by (meson in_set_takeD)
  then have "name = ''bundle''" by (simp add: restore_block_def create_model_def)
  ultimately show ?thesis using fr by (metis append_Nil2)
qed

lemma Save_after_restore:
  assumes "Save name \<in> set (snd (script train fs F))"
  shows "\<exists>pre post. snd (script train fs F) = pre @ [Restore model_path, Save ''bundle''] @ post
         \<and> (\<forall>a \<in> set pre. \<not> restore_step a) \<and> name = ''bundle''"
proof -
  from script_trace_shape [of train fs F] assms
  obtain pre n n_vocab n_train n_valid
    where sh: "snd (script train fs F) = pre @ take n (restore_block n_vocab n_train n_valid) @ [SessionExit]"
      and pre: "\<forall>a \<in> set pre. \<not> restore_step a"
    by fastforce
  from assms sh pre have "Save name \<in> set (take n (restore_block n_vocab n_train n_valid))"
    by auto
  from take_restore_block_Save [OF this] obtain front post
    where tk: "take n (restore_block n_vocab n_train n_valid) =
                 front @ [Restore model_path, Save ''bundle''] @ post"
      and nf: "\<forall>a \<in> set front. \<not> restore_step a" and nm: "name = ''bundle''" by blast
  from sh tk
  have "snd (script train fs F) = (pre @ front) @ [Restore model_path, Save ''bundle''] @ (post @ [SessionExit])"
    by simp
  moreover from pre nf have "\<forall>a \<in> set (pre @ front). \<not> restore_step a" by auto
  ultimately show ?thesis using nm by blast
qed

text \<open>
  C10, amended. In the restore block the script exports the restored model under the
  name \<open>bundle\<close>, right after restoring the checkpoint and right before the predictions
  on the test sentences. This holds for either value of the flag, in every run that no
  fault cuts short: such a run ends with restore, export, predictions and the closing
  of the session, and a run is not cut short when the three files exist and no call
  raises. In every run, complete or not, an export that is called comes right after the
  restore, and a prediction is reached only through that export.
\<close>

theorem restore_path_exports_bundle:
  "(fst (script train fs F) = Inr () \<longrightarrow>
      (\<exists>pre. snd (script train fs F) =
         pre @ [Restore model_path, Save ''bundle'', Predict (fst test_sentences), SessionExit]
         \<and> (\<forall>a \<in> set pre. \<not> restore_step a)))
   \<and> (\<forall>xs. Predict xs \<in> set (snd (script train fs F)) \<longrightarrow>
      (\<exists>pre. snd (script train fs F) = pre @ [Restore model_path, Save ''bundle'', Predict xs, SessionExit]
         \<and> (\<forall>a \<in> set pre. \<not> restore_step a)))
   \<and> (\<forall>name. Save name \<in> set (snd (script train fs F)) \<longrightarrow>
      (\<exists>pre post. snd (script train fs F) = pre @ [Restore model_path, Save ''bundle''] @ post
         \<and> (\<forall>a \<in> set pre. \<not> restore_step a) \<and> name = ''bundle''))
   \<and> ((\<exists>n. sizes fs = Inr n) \<and> (\<forall>tr a. \<not> F tr a) \<longrightarrow> fst (script train fs F) = Inr ())"
proof (intro conjI impI allI)
  assume c: "fst (script train fs F) = Inr ()"
  from sizes_of_complete [OF c] obtain n_train n_valid n_vocab
    where sz: "sizes fs = Inr (n_train, n_valid, n_vocab)" by blast
  from script_complete [OF sz c]
  have "Predict (fst test_sentences) \<in> set (snd (script train fs F))"
    by (simp add: full_trace_def restore_block_def)
  then show "\<exists>pre. snd (script train fs F) =
         pre @ [Restore model_path, Save ''bundle'', Predict (fst test_sentences), SessionExit]
         \<and> (\<forall>a \<in> set pre. \<not> restore_step a)"
    by (rule Predict_after_export)
next
  fix xs assume "Predict xs \<in> set (snd (script train fs F))"
  then show "\<exists>pre. snd (script train fs F) = pre @ [Restore model_path, Save ''bundle'', Predict xs, SessionExit]
         \<and> (\<forall>a \<in> set pre. \<not> restore_step a)"
    by (rule Predict_after_export)
next
  fix name assume "Save name \<in> set (snd (script train fs F))"
  then show "\<exists>pre post. snd (script train fs F) = pre @ [Restore model_path, Save ''bundle''] @ post
         \<and> (\<forall>a \<in> set pre. \<not> restore_step a) \<and> name = ''bundle''"
    by (rule Save_after_restore)
next
  assume h: "(\<exists>n. sizes fs = Inr n) \<and> (\<forall>tr a. \<not> F tr a)"
  then obtain n_train n_valid n_vocab where sz: "sizes fs = Inr (n_train, n_valid, n_vocab)"
    by (metis prod_cases3)
  from h have nf: "\<forall>tr a. \<not> F tr a" by blast
  show "fst (script train fs F) = Inr ()"
    by (simp add: script_no_fault [OF sz nf])
qed

text \<open>Runs with the three small files and no fault, flag unset and flag set.\<close>

theorem restore_path_exports_bundle_witness:
  "fst (script False files0 no_faults) = Inr ()
   \<and> fst (script True files0 no_faults) = Inr ()
   \<and> (\<exists>pre. snd (script False files0 no_faults) =
         pre @ [Restore model_path, Save ''bundle'', Predict (fst test_sentences), SessionExit]
         \<and> (\<forall>a \<in> set pre. \<not> restore_step a))
   \<and> (\<exists>pre. snd (script True files0 no_faults) =
         pre @ [Restore model_path, Save ''bundle'', Predict (fst test_sentences), SessionExit]
         \<and> (\<forall>a \<in> set pre. \<not> restore_step a))"
proof -
  have nf: "\<forall>tr a. \<not> no_faults tr a" by (simp add: no_faults_def)
  have sz: "\<exists>n. sizes files0 = Inr n" by (simp add: files0_sizes)
  from restore_path_exports_bundle [of False files0 no_faults] nf sz
  have a: "fst (script False files0 no_faults) = Inr ()" by blast
  from restore_path_exports_bundle [of True files0 no_faults] nf sz
  have b: "fst (script True files0 no_faults) = Inr ()" by blast
  from restore_path_exports_bundle [of False files0 no_faults]
    restore_path_exports_bundle [of True files0 no_faults] a b
  show ?thesis by blast
qed

text \<open>
  C1, amended. The flag guards the training block only. A run that no fault cuts short
  makes exactly these calls, in this order: the training block inside its session when
  the flag is set, then the reset of the default graph, then the restore block inside
  its session. So the training loop is run if and only if the flag is set, and the
  checkpoint is restored and the predictions on the test sentences are run for either
  value of the flag; when the flag is set, no call of the restore block comes before
  the training loop and the restore, the export and the predictions all come after it.
\<close>

theorem train_flag_guards_training_only:
  assumes "fst (script train fs F) = Inr ()"
  shows "(\<exists>n_train n_valid n_vocab.
            sizes fs = Inr (n_train, n_valid, n_vocab)
            \<and> snd (script train fs F) =
                [SetEnviron ''TF_CPP_MIN_LOG_LEVEL'' ''3''] @
                (if train
                 then [SessionEnter (99 / 100) True] @ train_block n_vocab n_train n_valid @ [SessionExit]
                 else []) @
                [ResetDefaultGraph, SessionEnter (99 / 100) False] @
                restore_block n_vocab n_train n_valid @ [SessionExit])
         \<and> (BatchTrain (data_path @ train_file) (data_path @ valid_file) \<in> set (snd (script train fs F))
              \<longleftrightarrow> train)
         \<and> Restore model_path \<in> set (snd (script train fs F))
         \<and> Predict (fst test_sentences) \<in> set (snd (script train fs F))
         \<and> (train \<longrightarrow>
              (\<exists>pre post. snd (script train fs F) =
                  pre @ [BatchTrain (data_path @ train_file) (data_path @ valid_file)] @ post
                \<and> (\<forall>a \<in> set pre. \<not> restore_step a)
                \<and> BatchTrain (data_path @ train_file) (data_path @ valid_file) \<notin> set post
                \<and> (\<exists>mid rest. post = mid @ [Restore model_path, Save ''bundle'',
                       Predict (fst test_sentences), SessionExit] @ rest)))"
proof -
  from sizes_of_complete [OF assms] obtain n_train n_valid n_vocab
    where sz: "sizes fs = Inr (n_train, n_valid, n_vocab)" by blast
  note tr = script_complete [OF sz assms]
  have shape: "snd (script train fs F) =
                [SetEnviron ''TF_CPP_MIN_LOG_LEVEL'' ''3''] @
                (if train
                 then [SessionEnter (99 / 100) True] @ train_block n_vocab n_train n_valid @ [SessionExit]
                 else []) @
                [ResetDefaultGraph, SessionEnter (99 / 100) False] @
                restore_block n_vocab n_train n_valid @ [SessionExit]"
    using tr by (simp add: full_trace_def)
  have mem: "(BatchTrain (data_path @ train_file) (data_path @ valid_file) \<in> set (snd (script train fs F))
              \<longleftrightarrow> train)
         \<and> Restore model_path \<in> set (snd (script train fs F))
         \<and> Predict (fst test_sentences) \<in> set (snd (script train fs F))"
    using tr by (simp add: full_trace_def train_block_def restore_block_def create_model_def)
  have order: "\<exists>pre post. snd (script train fs F) =
                  pre @ [BatchTrain (data_path @ train_file) (data_path @ valid_file)] @ post
                \<and> (\<forall>a \<in> set pre. \<not> restore_step a)
                \<and> BatchTrain (data_path @ train_file) (data_path @ valid_file) \<notin> set post
                \<and> (\<exists>mid rest. post = mid @ [Restore model_path, Save ''bundle'',
                       Predict (fst test_sentences), SessionExit] @ rest)" if train
  proof -
    let ?pre = "[SetEnviron ''TF_CPP_MIN_LOG_LEVEL'' ''3'', SessionEnter (99 / 100) True] @
                create_model n_vocab n_train n_valid @
                [LoadClasses (data_path @ classes_file), LoadVocab vocab_path, Saver]"
    let ?mid = "[SessionExit, ResetDefaultGraph, SessionEnter (99 / 100) False] @
                create_model n_vocab n_train n_valid @
                [LoadClasses (data_path @ classes_file), LoadVocab vocab_path, Saver]"
    let ?post = "?mid @ [Restore model_path, Save ''bundle'', Predict (fst test_sentences), SessionExit] @ []"
    have 1: "snd (script train fs F) =
               ?pre @ [BatchTrain (data_path @ train_file) (data_path @ valid_file)] @ ?post"
      using shape that by (simp add: train_block_def restore_block_def)
    have 2: "\<forall>a \<in> set ?pre. \<not> restore_step a" by (simp add: create_model_def)
    have 3: "BatchTrain (data_path @ train_file) (data_path @ valid_file) \<notin> set ?post"
      by (simp add: create_model_def)
    from 1 2 3 show ?thesis by blast
  qed
  from sz shape mem order show ?thesis by blast
qed

text \<open>With the flag unset, as the source has it, and with the flag set.\<close>

theorem train_flag_guards_training_only_witness:
  "fst (script False files0 no_faults) = Inr ()
   \<and> BatchTrain (data_path @ train_file) (data_path @ valid_file) \<notin> set (snd (script False files0 no_faults))
   \<and> Restore model_path \<in> set (snd (script False files0 no_faults))
   \<and> Predict (fst test_sentences) \<in> set (snd (script False files0 no_faults))
   \<and> fst (script True files0 no_faults) = Inr ()
   \<and> (\<exists>pre post. snd (script True files0 no_faults) =
          pre @ [BatchTrain (data_path @ train_file) (data_path @ valid_file)] @ post
        \<and> (\<forall>a \<in> set pre. \<not> restore_step a)
        \<and> BatchTrain (data_path @ train_file) (data_path @ valid_file) \<notin> set post
        \<and> (\<exists>mid rest. post = mid @ [Restore model_path, Save ''bundle'',
               Predict (fst test_sentences), SessionExit] @ rest))"
proof -
  have nf: "\<forall>tr a. \<not> no_faults tr a" by (simp add: no_faults_def)
  have a: "fst (script False files0 no_faults) = Inr ()"
    by (simp add: script_no_fault [OF files0_sizes nf])
  have b: "fst (script True files0 no_faults) = Inr ()"
    by (simp add: script_no_fault [OF files0_sizes nf])
  from train_flag_guards_training_only [OF a] train_flag_guards_training_only [OF b] a b
  show ?thesis by blast
qed

text \<open>
  C7. Whatever the three files contain, the sizes the script derives are their line
  counts: \<open>num_train_samples\<close> for the train ids file, \<open>num_valid_samples\<close> for the
  validation ids file, \<open>vocab_size\<close> for the vocabulary file; and every model the
  script builds is built with these three sizes.
\<close>

theorem sizes_are_line_counts:
  assumes "fs (data_path @ train_file) = Some a" and "fs (data_path @ valid_file) = Some b"
    and "fs vocab_path = Some c"
  shows "sizes fs = Inr (int (line_count a), int (line_count b), int (line_count c))
       \<and> (\<forall>args. RNNLM args \<in> set (snd (script train fs F)) \<longrightarrow>
            num_train_samples args = int (line_count a)
            \<and> num_valid_samples args = int (line_count b)
            \<and> vocab_size args = int (line_count c))"
proof -
  note sz = sizes_Some [OF assms]
  have "\<forall>args. RNNLM args \<in> set (full_trace True (int (line_count a)) (int (line_count b)) (int (line_count c)))
          \<longrightarrow> num_train_samples args = int (line_count a)
            \<and> num_valid_samples args = int (line_count b)
            \<and> vocab_size args = int (line_count c)"
    by (auto simp add: full_trace_def train_block_def restore_block_def create_model_def)
  with script_subset(1) [OF sz, of train F] sz show ?thesis by blast
qed

text \<open>Files of two, one and three lines; the first has no newline at its end.\<close>

theorem sizes_are_line_counts_witness:
  "files0 (data_path @ train_file) = Some ''4 8 15\<newline>16 23 42''
   \<and> files0 (data_path @ valid_file) = Some ''4 8\<newline>''
   \<and> files0 vocab_path = Some ''she\<newline>came\<newline>to\<newline>''
   \<and> sizes files0 = Inr (2, 1, 3)
   \<and> RNNLM args0 \<in> set (snd (script False files0 no_faults))
   \<and> num_train_samples args0 = 2 \<and> num_valid_samples args0 = 1 \<and> vocab_size args0 = 3"
proof -
  have a: "files0 (data_path @ train_file) = Some ''4 8 15\<newline>16 23 42''"
    and b: "files0 (data_path @ valid_file) = Some ''4 8\<newline>''"
    and c: "files0 vocab_path = Some ''she\<newline>came\<newline>to\<newline>''"
    by (simp_all add: files0_def path_defs)
  have lc: "line_count ''4 8 15\<newline>16 23 42'' = 2" "line_count ''4 8\<newline>'' = 1"
    "line_count ''she\<newline>came\<newline>to\<newline>'' = 3"
    by (simp_all add: line_count_def)
  have nf: "\<forall>tr a. \<not> no_faults tr a" by (simp add: no_faults_def)
  have m: "RNNLM args0 \<in> set (snd (script False files0 no_faults))"
    by (simp add: script_no_fault [OF files0_sizes nf] full_trace_def restore_block_def
        create_model_def args0_def)
  from sizes_are_line_counts [OF a b c, of False no_faults] a b c m
  show ?thesis by (simp add: lc)
qed

end
